theory Spec2Isabelle
  imports Main "HOL-Library.Sublist"
begin

section \<open>Terminal link openers (terminalLinkOpeners.ts)\<close>

text \<open>
  A shallow embedding of \<^verbatim>\<open>TerminalLocalFileLinkOpener.extractLineColumnInfo\<close> and of
  \<^verbatim>\<open>TerminalSearchLinkOpener\<close> (\<^verbatim>\<open>open\<close>, \<^verbatim>\<open>_updateLinkWithRelativeCwd\<close>,
  \<^verbatim>\<open>_getExactMatch\<close>). A JavaScript string is a \<^typ>\<open>string\<close> (code units below 256).
  The injected services are fields of a record; every call to a service is logged, so
  that a statement can say which services were called, in which order and with what.
  The pattern of \<^verbatim>\<open>extractLineColumnInfo\<close> is a syntax tree, matched by the backtracking
  matcher of the language.
\<close>

subsection \<open>String operations of the language\<close>

text \<open>The class \<^verbatim>\<open>\d\<close> of a JavaScript regular expression: the ten ASCII digits.\<close>

definition isDigit :: "char \<Rightarrow> bool" where
  "isDigit c = (c \<in> set ''0123456789'')"

text \<open>\<^verbatim>\<open>s.split(sep)\<close> for a one-character separator: never the empty list.\<close>

fun str_split :: "char \<Rightarrow> string \<Rightarrow> string list" where
  "str_split sep [] = [[]]"
| "str_split sep (c # cs) =
     (if c = sep then [] # str_split sep cs
      else (case str_split sep cs of
              [] \<Rightarrow> [[c]]
            | seg # segs \<Rightarrow> (c # seg) # segs))"

text \<open>\<^verbatim>\<open>segs.join(sep)\<close>.\<close>

fun str_join :: "char \<Rightarrow> string list \<Rightarrow> string" where
  "str_join sep [] = []"
| "str_join sep [seg] = seg"
| "str_join sep (seg # segs) = seg @ sep # str_join sep segs"

text \<open>The string of a truthy value: \<^verbatim>\<open>undefined\<close> and the empty string are falsy.\<close>

definition whenTruthy :: "string option \<Rightarrow> string option" where
  "whenTruthy v = (case v of None \<Rightarrow> None | Some s \<Rightarrow> if s = [] then None else Some s)"

subsection \<open>The regular expressions of \<^verbatim>\<open>open\<close>\<close>

text \<open>\<^verbatim>\<open>s.replace(/^file:\/\/\/?/, '')\<close>: the scheme, and a third slash when there is one.\<close>

definition stripFileScheme :: "string \<Rightarrow> string" where
  "stripFileScheme s =
     (if take 7 s = ''file://'' then
        (if take 1 (drop 7 s) = ''/'' then drop 8 s else drop 7 s)
      else s)"

text \<open>
  \<^verbatim>\<open>s.replace(/^(\.+[\\/])+/, '')\<close>: as long as the string starts with one or more dots
  and then a slash or a backslash, that group is removed.
\<close>

function stripLeadingDots :: "string \<Rightarrow> string" where
  "stripLeadingDots s =
     (let r = dropWhile (\<lambda>c. c = CHR ''.'') s in
      if r \<noteq> s \<and> r \<noteq> [] \<and> (hd r = CHR 0x5C \<or> hd r = CHR ''/'')
      then stripLeadingDots (tl r) else s)"
  by pat_completeness auto
termination
proof (relation "measure length")
  show "wf (measure length)" by simp
next
  fix s r :: string
  assume "r = dropWhile (\<lambda>c. c = CHR ''.'') s"
    and "r \<noteq> s \<and> r \<noteq> [] \<and> (hd r = CHR 0x5C \<or> hd r = CHR ''/'')"
  then have "length (tl r) < length r" and "length r \<le> length s"
    by (simp_all add: length_dropWhile_le)
  then show "(tl r, s) \<in> measure length" by simp
qed

declare stripLeadingDots.simps [simp del]

text \<open>\<^verbatim>\<open>s.replace(/:in$/, '')\<close>.\<close>

definition stripRubyIn :: "string \<Rightarrow> string" where
  "stripRubyIn s =
     (if 3 \<le> length s \<and> drop (length s - 3) s = '':in''
      then take (length s - 3) s else s)"

text \<open>
  Whether the whole of \<open>s\<close> is matched by \<^verbatim>\<open>:\d+(:\d+)?\<close>, and
  \<^verbatim>\<open>s.replace(/:\d+(:\d+)?$/, '')\<close>, which cuts the string at the leftmost position from
  which the rest is matched.
\<close>

definition isLineColSuffix :: "string \<Rightarrow> bool" where
  "isLineColSuffix s =
     (case s of
        [] \<Rightarrow> False
      | c # r \<Rightarrow>
          c = CHR '':'' \<and>
          (let ds = takeWhile isDigit r; r' = dropWhile isDigit r in
           ds \<noteq> [] \<and>
           (r' = [] \<or> (hd r' = CHR '':'' \<and> tl r' \<noteq> [] \<and> list_all isDigit (tl r')))))"

fun sanitizeLink :: "string \<Rightarrow> string" where
  "sanitizeLink [] = []"
| "sanitizeLink (c # cs) =
     (if isLineColSuffix (c # cs) then [] else c # sanitizeLink cs)"

text \<open>
  \<^verbatim>\<open>s.match(/:(\d+)?(:(\d+))?$/)\<close>: at the leftmost position from which the rest is
  matched, the groups 1 and 3; a group that took no part is \<open>None\<close> (\<^verbatim>\<open>undefined\<close>).
\<close>

definition lineColGroupsAt :: "string \<Rightarrow> (string option \<times> string option) option" where
  "lineColGroupsAt s =
     (case s of
        [] \<Rightarrow> None
      | c # r \<Rightarrow>
          if c \<noteq> CHR '':'' then None
          else
            (let ds = takeWhile isDigit r; r' = dropWhile isDigit r;
                 g1 = (if ds = [] then None else Some ds) in
             if r' = [] then Some (g1, None)
             else if hd r' = CHR '':'' \<and> tl r' \<noteq> [] \<and> list_all isDigit (tl r')
             then Some (g1, Some (tl r'))
             else None))"

fun matchLineCol :: "string \<Rightarrow> (string option \<times> string option) option" where
  "matchLineCol [] = None"
| "matchLineCol (c # cs) =
     (case lineColGroupsAt (c # cs) of
        Some g \<Rightarrow> Some g
      | None \<Rightarrow> matchLineCol cs)"

subsection \<open>Numbers: \<^verbatim>\<open>parseInt\<close>\<close>

text \<open>
  A JavaScript number is a double. The numbers of this file are results of
  \<^verbatim>\<open>parseInt\<close> and the literals 0 and 1, so they are integers, a signed zero, an infinity
  or \<^verbatim>\<open>NaN\<close>. An integer below \<open>2 ^ 53\<close> is itself; a larger one is rounded to the
  nearest double, ties to even, and to an infinity from \<open>2 ^ 1024\<close> on.
\<close>

datatype jsnumber = NaN | Num int | NegZero | PosInfinity | NegInfinity

fun bitLength :: "nat \<Rightarrow> nat" where
  "bitLength n = (if n = 0 then 0 else Suc (bitLength (n div 2)))"

declare bitLength.simps [simp del]

definition roundToDouble :: "nat \<Rightarrow> nat option" where
  "roundToDouble n =
     (if n < 2 ^ 53 then Some n
      else
        (let e = bitLength n - 53; q = n div 2 ^ e; r = n mod 2 ^ e; h = 2 ^ (e - 1);
             q' = (if h < r \<or> (r = h \<and> odd q) then q + 1 else q);
             m = q' * 2 ^ e
         in if m < 2 ^ 1024 then Some m else None))"

definition isWhiteSpace :: "char \<Rightarrow> bool" where
  "isWhiteSpace c = ((of_char c :: nat) \<in> {9, 10, 11, 12, 13, 32, 160})"

definition digitValue :: "char \<Rightarrow> nat option" where
  "digitValue c =
     (let n = (of_char c :: nat) in
      if 48 \<le> n \<and> n \<le> 57 then Some (n - 48)
      else if 97 \<le> n \<and> n \<le> 122 then Some (n - 87)
      else if 65 \<le> n \<and> n \<le> 90 then Some (n - 55)
      else None)"

definition isRadixDigit :: "nat \<Rightarrow> char \<Rightarrow> bool" where
  "isRadixDigit R c = (case digitValue c of None \<Rightarrow> False | Some v \<Rightarrow> v < R)"

definition mathInt :: "nat \<Rightarrow> string \<Rightarrow> nat" where
  "mathInt R Z = foldl (\<lambda>a c. a * R + (case digitValue c of None \<Rightarrow> 0 | Some v \<Rightarrow> v)) 0 Z"

text \<open>
  \<^verbatim>\<open>parseInt(str, radix)\<close>; the radix 0 stands for a call with no radix. Leading white
  space and a sign are skipped, a hexadecimal prefix is read when the radix allows it, and
  the longest prefix of digits of the radix is the value; with no digit the result is
  \<^verbatim>\<open>NaN\<close>.
\<close>

definition parseInt :: "string \<Rightarrow> nat \<Rightarrow> jsnumber" where
  "parseInt str radix =
     (let S = dropWhile isWhiteSpace str;
          negative = (take 1 S = ''-'');
          S1 = (if take 1 S = ''-'' \<or> take 1 S = ''+'' then drop 1 S else S);
          hex = ((radix = 0 \<or> radix = 16) \<and> (take 2 S1 = ''0x'' \<or> take 2 S1 = ''0X''));
          R = (if hex then 16 else if radix = 0 then 10 else radix);
          Z = takeWhile (isRadixDigit R) (if hex then drop 2 S1 else S1)
      in if R < 2 \<or> 36 < R then NaN
         else if Z = [] then NaN
         else
           (case roundToDouble (mathInt R Z) of
              None \<Rightarrow> if negative then NegInfinity else PosInfinity
            | Some m \<Rightarrow>
                if m = 0 then (if negative then NegZero else Num 0)
                else Num (if negative then - int m else int m)))"

subsection \<open>Data of the openers\<close>

datatype error = Error string

datatype Schemas = Schemas_vscodeRemote | Schemas_file

record URI =
  scheme :: Schemas
  path :: string

record IWorkspaceFolder =
  name :: string
  uri :: URI

record ITerminalSimpleLink =
  link_text :: string
  bufferRange_start_y :: int

record IFileStat =
  isFile :: bool

text \<open>
  The query \<^verbatim>\<open>QueryBuilder.file(folders, {filePattern, maxResults})\<close>: the three values
  the opener hands to the query builder.
\<close>

record IFileQuery =
  folderQueries :: "IWorkspaceFolder list"
  filePattern :: string
  maxResults :: nat

record ITextEditorSelection =
  startLineNumber :: jsnumber
  startColumn :: jsnumber

record IResourceEditorInput =
  resource :: URI
  pinned :: bool
  revealIfOpened :: bool
  selection :: "ITextEditorSelection option"


text \<open>
  What \<^verbatim>\<open>TerminalSearchLinkOpener\<close> is constructed with and imports: the platform flag,
  the two functions of \<^verbatim>\<open>vs/base/common/path\<close>, \<^verbatim>\<open>URI.from\<close> of \<^verbatim>\<open>vs/base/common/uri\<close>
  (called with a scheme and a path; it returns the resource or throws), the workspace
  folders, the command detection capability (\<^verbatim>\<open>getCwdForLine\<close>, when the terminal has
  it), the remote authority, and the file, search and editor services, each of which
  returns or throws.
\<close>

record Services =
  isWindows :: bool
  path_normalize :: "string \<Rightarrow> string"
  path_isAbsolute :: "string \<Rightarrow> bool"
  URI_from :: "Schemas \<Rightarrow> string \<Rightarrow> error + URI"
  workspace_folders :: "IWorkspaceFolder list"
  commandDetection :: "(int \<Rightarrow> string option) option"
  remoteAuthority :: "string option"
  fileService_resolve :: "URI \<Rightarrow> error + IFileStat"
  searchService_fileSearch :: "IFileQuery \<Rightarrow> error + URI list"
  editorService_openEditor :: "IResourceEditorInput \<Rightarrow> error + unit"

text \<open>The calls to the services, in the order they are made.\<close>

datatype ServiceCall =
  Resolve URI
| FileSearch IFileQuery
| OpenEditor IResourceEditorInput
| QuickAccessShow string

subsection \<open>\<^verbatim>\<open>TerminalSearchLinkOpener\<close>\<close>

text \<open>
  One round of the \<^verbatim>\<open>forEach\<close> over the workspace folders (lines 129 to 134): the
  callback for one folder, on the running \<^verbatim>\<open>text\<close>. Its \<^verbatim>\<open>return\<close> ends the callback,
  and \<^verbatim>\<open>forEach\<close> goes on to the next folder.
\<close>

definition stripFolderName :: "char \<Rightarrow> string \<Rightarrow> IWorkspaceFolder \<Rightarrow> string" where
  "stripFolderName pathSeparator text folder =
     (if take (length (name folder) + 1) text = name folder @ [pathSeparator]
      then drop (length (name folder) + 1) text else text)"

definition pathSeparatorOf :: "Services \<Rightarrow> char" where
  "pathSeparatorOf sv = (if isWindows sv then CHR 0x5C else CHR ''/'')"

text \<open>The value of \<^verbatim>\<open>text\<close> at line 135 of \<^verbatim>\<open>open\<close>, for the link text \<open>t\<close>.\<close>

definition open_text :: "Services \<Rightarrow> string \<Rightarrow> string" where
  "open_text sv t =
     foldl (stripFolderName (pathSeparatorOf sv))
       (stripRubyIn (stripLeadingDots (path_normalize sv (stripFileScheme t))))
       (workspace_folders sv)"

text \<open>The \<^verbatim>\<open>while\<close> loop of \<^verbatim>\<open>_updateLinkWithRelativeCwd\<close>, from \<open>i\<close> and \<open>commonDirs\<close> on.\<close>

function commonDirsLoop :: "string list \<Rightarrow> string list \<Rightarrow> nat \<Rightarrow> nat \<Rightarrow> nat" where
  "commonDirsLoop cwdPath linkPath i commonDirs =
     (if i < length cwdPath then
        commonDirsLoop cwdPath linkPath (i + 1)
          (if i < length linkPath \<and> cwdPath ! i = linkPath ! i
           then commonDirs + 1 else commonDirs)
      else commonDirs)"
  by pat_completeness auto
termination
  by (relation "measure (\<lambda>(cwdPath, linkPath, i, commonDirs). length cwdPath - i)") auto

declare commonDirsLoop.simps [simp del]

definition updateLinkWithRelativeCwd ::
  "Services \<Rightarrow> int \<Rightarrow> string \<Rightarrow> char \<Rightarrow> string option" where
  "updateLinkWithRelativeCwd sv y text pathSeparator =
     (case (case commandDetection sv of None \<Rightarrow> None | Some getCwdForLine \<Rightarrow> getCwdForLine y) of
        None \<Rightarrow> None
      | Some cwd \<Rightarrow>
          if cwd = [] then None
          else if pathSeparator \<notin> set text then Some (cwd @ pathSeparator # text)
          else
            (let cwdPath = rev (str_split pathSeparator cwd);
                 linkPath = str_split pathSeparator text;
                 commonDirs = commonDirsLoop cwdPath linkPath 0 0
             in Some (cwd @ pathSeparator # str_join pathSeparator (drop commonDirs linkPath))))"

text \<open>
  \<^verbatim>\<open>_getExactMatch\<close>: the log of its calls, and what it returns or throws. Its second
  parameter \<^verbatim>\<open>link\<close> is not read. First the value of \<^verbatim>\<open>scheme\<close> at line 198 (an
  empty remote authority is falsy) and the query of lines 207 to 211.
\<close>

definition schemeOf :: "Services \<Rightarrow> Schemas" where
  "schemeOf sv =
     (if remoteAuthority sv \<noteq> None \<and> remoteAuthority sv \<noteq> Some []
      then Schemas_vscodeRemote else Schemas_file)"

definition fileQueryOf :: "Services \<Rightarrow> string \<Rightarrow> IFileQuery" where
  "fileQueryOf sv sanitizedLink =
     \<lparr>folderQueries = workspace_folders sv, filePattern = sanitizedLink, maxResults = 2\<rparr>"

definition getExactMatch ::
  "Services \<Rightarrow> string \<Rightarrow> string \<Rightarrow> ServiceCall list \<times> (error + URI option)" where
  "getExactMatch sv sanitizedLink link =
     (let (calls, stat) =
            (if path_isAbsolute sv sanitizedLink then
               (case URI_from sv (schemeOf sv) sanitizedLink of
                  Inl e \<Rightarrow> ([], Inl e)
                | Inr resource' \<Rightarrow>
                    (case fileService_resolve sv resource' of
                       Inl e \<Rightarrow> ([Resolve resource'], Inl e)
                     | Inr fileStat \<Rightarrow>
                         ([Resolve resource'],
                          Inr (if isFile fileStat then Some resource' else None))))
             else ([], Inr None))
      in case stat of
           Inl e \<Rightarrow> (calls, Inl e)
         | Inr (Some exactResource) \<Rightarrow> (calls, Inr (Some exactResource))
         | Inr None \<Rightarrow>
             (let query = fileQueryOf sv sanitizedLink in
              case searchService_fileSearch sv query of
                Inl e \<Rightarrow> (calls @ [FileSearch query], Inl e)
              | Inr results \<Rightarrow>
                  (calls @ [FileSearch query],
                   Inr (if length results = 1 then Some (results ! 0) else None))))"

text \<open>The values of \<^verbatim>\<open>matchLink\<close> and \<^verbatim>\<open>sanitizedLink\<close> in \<^verbatim>\<open>open\<close>.\<close>

definition open_matchLink :: "Services \<Rightarrow> ITerminalSimpleLink \<Rightarrow> string" where
  "open_matchLink sv link =
     (let text = open_text sv (link_text link) in
      if commandDetection sv \<noteq> None then
        (case updateLinkWithRelativeCwd sv (bufferRange_start_y link) text (pathSeparatorOf sv) of
           None \<Rightarrow> text
         | Some updated \<Rightarrow> if updated = [] then text else updated)
      else text)"

definition open_sanitizedLink :: "Services \<Rightarrow> ITerminalSimpleLink \<Rightarrow> string" where
  "open_sanitizedLink sv link = sanitizeLink (open_matchLink sv link)"

text \<open>The editor input of lines 147 to 157, for an exact match and \<^verbatim>\<open>matchLink\<close>.\<close>

definition open_editorInput :: "URI \<Rightarrow> string \<Rightarrow> IResourceEditorInput" where
  "open_editorInput exactMatch matchLink =
     (let startLineNumber = (case matchLineCol matchLink of None \<Rightarrow> None | Some g \<Rightarrow> fst g);
          startColumn = (case matchLineCol matchLink of None \<Rightarrow> None | Some g \<Rightarrow> snd g)
      in \<lparr>resource = exactMatch, pinned = True, revealIfOpened = True,
          selection =
            (case whenTruthy startLineNumber of
               None \<Rightarrow> None
             | Some l \<Rightarrow>
                 Some \<lparr>startLineNumber = parseInt l 0,
                       startColumn = (case whenTruthy startColumn of
                                        None \<Rightarrow> Num 0
                                      | Some c \<Rightarrow> parseInt c 0)\<rparr>)\<rparr>)"

text \<open>
  \<^verbatim>\<open>TerminalSearchLinkOpener.open\<close>: the log of its calls, and whether it returns or
  throws. The \<^verbatim>\<open>try\<close> block holds \<^verbatim>\<open>_getExactMatch\<close> and \<^verbatim>\<open>openEditor\<close>.
\<close>

definition TerminalSearchLinkOpener_open ::
  "Services \<Rightarrow> ITerminalSimpleLink \<Rightarrow> ServiceCall list \<times> (error + unit)" where
  "TerminalSearchLinkOpener_open sv link =
     (let text = open_text sv (link_text link);
          matchLink = open_matchLink sv link;
          sanitizedLink = open_sanitizedLink sv link
      in case getExactMatch sv sanitizedLink matchLink of
           (calls, Inl e) \<Rightarrow> (calls @ [QuickAccessShow text], Inr ())
         | (calls, Inr None) \<Rightarrow> (calls @ [QuickAccessShow text], Inr ())
         | (calls, Inr (Some exactMatch)) \<Rightarrow>
             (let input = open_editorInput exactMatch matchLink in
              case editorService_openEditor sv input of
                Inl e \<Rightarrow> (calls @ [OpenEditor input, QuickAccessShow text], Inr ())
              | Inr u \<Rightarrow> (calls @ [OpenEditor input], Inr ())))"

subsection \<open>Regular expressions of the language\<close>

text \<open>
  The patterns that \<^verbatim>\<open>extractLineColumnInfo\<close> compiles, as syntax trees, and the
  backtracking matcher of the language for them. An item of a character class is a
  character, a range, \<^verbatim>\<open>\s\<close> or \<^verbatim>\<open>\d\<close>; \<open>RClass True\<close> is a negated class (\<^verbatim>\<open>\S\<close> is
  \<open>RClass True [CSpace]\<close>). \<open>RGroup\<close> is a capturing group; a group that does not capture
  is its body. \<open>ROpt\<close>, \<open>RStar\<close> and \<open>RPlus\<close> are the greedy quantifiers \<^verbatim>\<open>?\<close>, \<^verbatim>\<open>*\<close>
  and \<^verbatim>\<open>+\<close>.
\<close>

datatype citem = CChar char | CRange char char | CSpace | CDigit

datatype regex =
    RChar char
  | RClass bool "citem list"
  | RSeq regex regex
  | RAlt regex regex
  | RGroup regex
  | ROpt regex
  | RStar regex
  | RPlus regex

text \<open>The number of capturing groups of a pattern.\<close>

fun parenCount :: "regex \<Rightarrow> nat" where
  "parenCount (RChar c) = 0"
| "parenCount (RClass neg items) = 0"
| "parenCount (RSeq a b) = parenCount a + parenCount b"
| "parenCount (RAlt a b) = parenCount a + parenCount b"
| "parenCount (RGroup r) = Suc (parenCount r)"
| "parenCount (ROpt r) = parenCount r"
| "parenCount (RStar r) = parenCount r"
| "parenCount (RPlus r) = parenCount r"



text \<open>
  The captures of a match: entry \<open>i\<close> is what group \<open>i\<close> captured, \<open>None\<close> for
  \<^verbatim>\<open>undefined\<close>. \<open>clearGroups i n\<close> resets the groups \<open>i\<close> to \<open>i + n - 1\<close>, which is what
  a quantifier does to the groups of its body before each iteration.
\<close>

type_synonym captures = "string option list"


fun clearGroups :: "nat \<Rightarrow> nat \<Rightarrow> captures \<Rightarrow> captures" where
  "clearGroups i 0 caps = caps"
| "clearGroups i (Suc n) caps = clearGroups (Suc i) n (caps[i := None])"




subsection \<open>The link grammar of \<^verbatim>\<open>terminalLocalLinkDetector\<close>\<close>

text \<open>
  Modelled from the spec: the constants that \<^verbatim>\<open>terminalLinkOpeners.ts\<close> imports from
  \<^verbatim>\<open>terminalLocalLinkDetector.ts\<close>, a module of the repository that is not among the
  sources: the path clause of each operating system, the alternation of line and column
  clauses, the index of the first line group and the number of groups of an alternative.
  The module builds the path clauses from

  \<^item> \<^verbatim>\<open>pathPrefix = (\.\.?|\~)\<close>, the separator \<^verbatim>\<open>\/\<close> and the class
    \<^verbatim>\<open>[^\0\s!`&*()\[\]'":;\\]\<close> of the characters of a path, as
    \<^verbatim>\<open>((pathPrefix|(class)+)?(\/(class)+)+)\<close>, which has 6 groups;
  \<^item> on Windows \<^verbatim>\<open>winPathPrefix = ((?:\\\\\?\\)?[a-zA-Z]:|\.\.?|\~)\<close>, the separator
    \<^verbatim>\<open>(\\|\/)\<close> and the class \<^verbatim>\<open>[^\0<>\?\|\/\s!`&*()\[\]'":;]\<close>, as
    \<^verbatim>\<open>((winPathPrefix|(class)+)?((\\|\/)(class)+)+)\<close>, which has 7 groups.
\<close>

definition excludedPathCharactersClause :: regex where
  "excludedPathCharactersClause =
     RClass True [CChar (CHR 0x00), CSpace, CChar CHR ''!'', CChar (CHR 0x60), CChar CHR ''&'',
                  CChar CHR ''*'', CChar CHR ''('', CChar CHR '')'', CChar CHR ''['',
                  CChar CHR '']'', CChar (CHR 0x27), CChar (CHR 0x22), CChar CHR '':'',
                  CChar CHR '';'', CChar (CHR 0x5C)]"

definition pathPrefix :: regex where
  "pathPrefix = RGroup (RAlt (RSeq (RChar CHR ''.'') (ROpt (RChar CHR ''.''))) (RChar CHR ''~''))"







text \<open>
  Modelled from the spec: \<^verbatim>\<open>lineAndColumnClause\<close> of the same module, six patterns joined
  by \<^verbatim>\<open>|\<close>, in which every space is then replaced by the class of the space and the
  no-break space (written \<^verbatim>\<open>_\<close> here), most specific first:

  \<^enum> \<^verbatim>\<open>((\S*)['"],_line_((\d+)(_column_(\d+))?))\<close>
  \<^enum> \<^verbatim>\<open>((\S*)['"],((\d+)(:(\d+))?))\<close>
  \<^enum> \<^verbatim>\<open>((\S*)_on_line_((\d+)(,_column_(\d+))?))\<close>
  \<^enum> \<^verbatim>\<open>((\S*):line_((\d+)(,_column_(\d+))?))\<close>
  \<^enum> \<^verbatim>\<open>(([^\s\(\)]*)(\s?[\(\[](\d+)(,\s?(\d+))?)[\)\]])\<close>
  \<^enum> \<^verbatim>\<open>(([^:\s\(\)<>'\"\[\]]*)(:(\d+))?(:(\d+))?)\<close>

  Each has 6 groups, the line being the fourth and the column the sixth. The text of the
  joined pattern has 240 characters, 12 of them spaces, each of which becomes a class of
  4 characters: its \<^verbatim>\<open>length\<close> is 276.
\<close>

definition spaceClause :: regex where
  "spaceClause = RClass False [CChar (CHR 0xA0), CChar CHR '' '']"

fun literal :: "string \<Rightarrow> regex \<Rightarrow> regex" where
  "literal [] r = r"
| "literal (c # cs) r =
     RSeq (if c = CHR '' '' then spaceClause else RChar c) (literal cs r)"

definition digits :: regex where
  "digits = RGroup (RPlus (RClass False [CDigit]))"

definition nonSpaces :: regex where
  "nonSpaces = RGroup (RStar (RClass True [CSpace]))"

definition quoteClause :: regex where
  "quoteClause = RClass False [CChar (CHR 0x27), CChar (CHR 0x22)]"

definition lineAndColumnClause1 :: regex where
  "lineAndColumnClause1 =
     RGroup (RSeq nonSpaces (RSeq quoteClause (literal '', line ''
       (RGroup (RSeq digits (ROpt (RGroup (literal '' column '' digits))))))))"

definition lineAndColumnClause2 :: regex where
  "lineAndColumnClause2 =
     RGroup (RSeq nonSpaces (RSeq quoteClause (literal '',''
       (RGroup (RSeq digits (ROpt (RGroup (literal '':'' digits))))))))"

definition lineAndColumnClause3 :: regex where
  "lineAndColumnClause3 =
     RGroup (RSeq nonSpaces (literal '' on line ''
       (RGroup (RSeq digits (ROpt (RGroup (literal '', column '' digits)))))))"

definition lineAndColumnClause4 :: regex where
  "lineAndColumnClause4 =
     RGroup (RSeq nonSpaces (literal '':line ''
       (RGroup (RSeq digits (ROpt (RGroup (literal '', column '' digits)))))))"

definition lineAndColumnClause5 :: regex where
  "lineAndColumnClause5 =
     RGroup (RSeq
       (RGroup (RStar (RClass True [CSpace, CChar CHR ''('', CChar CHR '')''])))
       (RSeq
         (RGroup (RSeq (ROpt (RClass False [CSpace]))
            (RSeq (RClass False [CChar CHR ''('', CChar CHR ''[''])
               (RSeq digits
                  (ROpt (RGroup (RSeq (RChar CHR '','')
                     (RSeq (ROpt (RClass False [CSpace])) digits))))))))
         (RClass False [CChar CHR '')'', CChar CHR '']''])))"

definition lineAndColumnClause6 :: regex where
  "lineAndColumnClause6 =
     RGroup (RSeq
       (RGroup (RStar (RClass True
          [CChar CHR '':'', CSpace, CChar CHR ''('', CChar CHR '')'', CChar CHR ''<'',
           CChar CHR ''>'', CChar (CHR 0x27), CChar (CHR 0x22), CChar CHR ''['',
           CChar CHR '']''])))
       (RSeq (ROpt (RGroup (RSeq (RChar CHR '':'') digits)))
             (ROpt (RGroup (RSeq (RChar CHR '':'') digits)))))"






subsection \<open>\<^verbatim>\<open>TerminalLocalFileLinkOpener.extractLineColumnInfo\<close>\<close>

datatype OperatingSystem = Windows | Macintosh | Linux







subsection \<open>The POSIX functions of \<^verbatim>\<open>vs/base/common/path\<close>\<close>

text \<open>
  Modelled from the spec: \<^verbatim>\<open>normalize\<close> of \<^verbatim>\<open>vs/base/common/path\<close> is imported by the
  source and is not part of it. The general statements below hold for every function in
  its place (the field \<open>path_normalize\<close>); this is the POSIX instance, for the concrete
  inputs: it canonicalises the \<^verbatim>\<open>.\<close> and \<^verbatim>\<open>..\<close> segments of a string with the separator
  \<^verbatim>\<open>/\<close>, without looking at the file system. First, what one segment does to the
  segments kept so far.
\<close>

definition posix_normalizeSegment :: "bool \<Rightarrow> string list \<Rightarrow> string \<Rightarrow> string list" where
  "posix_normalizeSegment allowAboveRoot res seg =
     (if seg = [] \<or> seg = ''.'' then res
      else if seg = ''..'' then
        (if res \<noteq> [] \<and> last res \<noteq> ''..'' then butlast res
         else if allowAboveRoot then res @ [''..''] else res)
      else res @ [seg])"

text \<open>
  Modelled from the spec: the POSIX \<^verbatim>\<open>normalize\<close>. The empty string becomes \<^verbatim>\<open>.\<close>; a
  leading and a trailing separator are kept.
\<close>

definition posix_normalize :: "string \<Rightarrow> string" where
  "posix_normalize p =
     (if p = [] then ''.''
      else
        (let isAbs = (hd p = CHR ''/'');
             trailingSeparator = (last p = CHR ''/'');
             q = str_join CHR ''/''
                   (foldl (posix_normalizeSegment (\<not> isAbs)) [] (str_split CHR ''/'' p))
         in if q = [] then (if isAbs then ''/'' else if trailingSeparator then ''./'' else ''.'')
            else (if isAbs then ''/'' else []) @ q @ (if trailingSeparator then ''/'' else [])))"

text \<open>
  Modelled from the spec: \<^verbatim>\<open>isAbsolute\<close> of \<^verbatim>\<open>vs/base/common/path\<close>, imported by the source
  and not part of it (the field \<open>path_isAbsolute\<close>), in its POSIX instance: the path
  starts with the separator.
\<close>

definition posix_isAbsolute :: "string \<Rightarrow> bool" where
  "posix_isAbsolute p = (p \<noteq> [] \<and> hd p = CHR ''/'')"

subsection \<open>\<^verbatim>\<open>URI.from\<close> of \<^verbatim>\<open>vs/base/common/uri\<close>\<close>

text \<open>
  Modelled from the spec: \<^verbatim>\<open>URI.from\<close> is imported by the source and is not part of it.
  The general statements below hold for every function in its place (the field
  \<open>URI_from\<close>); this is the instance for the concrete inputs, called as the source calls
  it, with a scheme and a path and no authority: a path of the scheme \<^verbatim>\<open>file\<close> gets a
  leading slash when it has none, and a path that starts with two slashes is refused
  with an error, since there is no authority.
\<close>

definition uri_from :: "Schemas \<Rightarrow> string \<Rightarrow> error + URI" where
  "uri_from sch p =
     (let p' = (if sch = Schemas_file \<and> take 1 p \<noteq> ''/'' then CHR ''/'' # p else p) in
      if take 2 p' = ''//''
      then Inl (Error ''[UriError]: the path cannot begin with two slash characters'')
      else Inr \<lparr>scheme = sch, path = p'\<rparr>)"

subsection \<open>A POSIX host with no file\<close>

text \<open>
  The concrete inputs below run on a POSIX host whose workspace folders are given by
  name, with no command detection and no remote authority, where \<^verbatim>\<open>resolve\<close> throws (no
  such file), the search finds nothing and the editor opens what it is given.
\<close>

definition folderNamed :: "string \<Rightarrow> IWorkspaceFolder" where
  "folderNamed n = \<lparr>name = n, uri = \<lparr>scheme = Schemas_file, path = ''/home/u/'' @ n\<rparr>\<rparr>"

definition posixServices :: "IWorkspaceFolder list \<Rightarrow> Services" where
  "posixServices fs =
     \<lparr>isWindows = False, path_normalize = posix_normalize, path_isAbsolute = posix_isAbsolute,
      URI_from = uri_from, workspace_folders = fs, commandDetection = None, remoteAuthority = None,
      fileService_resolve = (\<lambda>r. Inl (Error ''ENOENT'')),
      searchService_fileSearch = (\<lambda>q. Inr []),
      editorService_openEditor = (\<lambda>i. Inr ())\<rparr>"

text \<open>
  A POSIX host whose search finds the one file \<open>/home/u/proj/b.ts\<close>, and whose editor
  opens it or throws.
\<close>

definition oneFileServices :: "(error + unit) \<Rightarrow> Services" where
  "oneFileServices opened =
     (posixServices [folderNamed ''proj''])
       \<lparr>searchService_fileSearch := (\<lambda>q. Inr [\<lparr>scheme = Schemas_file, path = ''/home/u/proj/b.ts''\<rparr>]),
        editorService_openEditor := (\<lambda>i. opened)\<rparr>"

subsection \<open>Notions for the properties of the normalisation\<close>


subsection \<open>Notions for the properties of the matcher\<close>





section \<open>Properties\<close>

subsection \<open>What \<^verbatim>\<open>_getExactMatch\<close> and \<^verbatim>\<open>open\<close> do, case by case\<close>

lemma getExactMatch_relative:
  assumes "\<not> path_isAbsolute sv s"
  shows "getExactMatch sv s l =
           ([FileSearch (fileQueryOf sv s)],
            (case searchService_fileSearch sv (fileQueryOf sv s) of
               Inl e \<Rightarrow> Inl e
             | Inr results \<Rightarrow> Inr (if length results = 1 then Some (results ! 0) else None)))"
  using assms by (simp add: getExactMatch_def Let_def split: sum.splits)

lemma getExactMatch_uri_throws:
  assumes "path_isAbsolute sv s" and "URI_from sv (schemeOf sv) s = Inl e"
  shows "getExactMatch sv s l = ([], Inl e)"
  using assms by (simp add: getExactMatch_def Let_def)

lemma getExactMatch_stat_throws:
  assumes "path_isAbsolute sv s" and "URI_from sv (schemeOf sv) s = Inr r"
    and "fileService_resolve sv r = Inl e"
  shows "getExactMatch sv s l = ([Resolve r], Inl e)"
  using assms by (simp add: getExactMatch_def Let_def)

lemma getExactMatch_stat_file:
  assumes "path_isAbsolute sv s" and "URI_from sv (schemeOf sv) s = Inr r"
    and "fileService_resolve sv r = Inr st" and "isFile st"
  shows "getExactMatch sv s l = ([Resolve r], Inr (Some r))"
  using assms by (simp add: getExactMatch_def Let_def)

lemma getExactMatch_stat_no_file:
  assumes "path_isAbsolute sv s" and "URI_from sv (schemeOf sv) s = Inr r"
    and "fileService_resolve sv r = Inr st" and "\<not> isFile st"
  shows "getExactMatch sv s l =
           ([Resolve r, FileSearch (fileQueryOf sv s)],
            (case searchService_fileSearch sv (fileQueryOf sv s) of
               Inl e \<Rightarrow> Inl e
             | Inr results \<Rightarrow> Inr (if length results = 1 then Some (results ! 0) else None)))"
  using assms by (simp add: getExactMatch_def Let_def split: sum.splits)

text \<open>
  The calls made before the search, when the search is reached: none for a path that is
  not absolute, the \<^verbatim>\<open>resolve\<close> of the resource for an absolute path that is no file.
\<close>

lemma getExactMatch_search:
  assumes "(\<not> path_isAbsolute sv s \<and> pre = [])
           \<or> (path_isAbsolute sv s
               \<and> (\<exists>r st. URI_from sv (schemeOf sv) s = Inr r \<and> fileService_resolve sv r = Inr st
                          \<and> \<not> isFile st \<and> pre = [Resolve r]))"
  shows "getExactMatch sv s l =
           (pre @ [FileSearch (fileQueryOf sv s)],
            (case searchService_fileSearch sv (fileQueryOf sv s) of
               Inl e \<Rightarrow> Inl e
             | Inr results \<Rightarrow> Inr (if length results = 1 then Some (results ! 0) else None)))"
  using assms
proof
  assume "\<not> path_isAbsolute sv s \<and> pre = []"
  then show ?thesis by (simp add: getExactMatch_relative)
next
  assume "path_isAbsolute sv s
          \<and> (\<exists>r st. URI_from sv (schemeOf sv) s = Inr r \<and> fileService_resolve sv r = Inr st
                     \<and> \<not> isFile st \<and> pre = [Resolve r])"
  then obtain r st where "path_isAbsolute sv s" "URI_from sv (schemeOf sv) s = Inr r"
    "fileService_resolve sv r = Inr st" "\<not> isFile st" and pre: "pre = [Resolve r]"
    by blast
  from getExactMatch_stat_no_file [OF this(1-4)] pre show ?thesis by simp
qed

lemma open_no_exact_match:
  assumes "getExactMatch sv (open_sanitizedLink sv link) (open_matchLink sv link) = (calls, r)"
    and "\<And>m. r \<noteq> Inr (Some m)"
  shows "TerminalSearchLinkOpener_open sv link =
           (calls @ [QuickAccessShow (open_text sv (link_text link))], Inr ())"
  using assms by (cases r) (auto simp: TerminalSearchLinkOpener_open_def Let_def split: option.splits)

lemma open_exact_match:
  assumes "getExactMatch sv (open_sanitizedLink sv link) (open_matchLink sv link)
             = (calls, Inr (Some m))"
  shows "TerminalSearchLinkOpener_open sv link =
           (case editorService_openEditor sv (open_editorInput m (open_matchLink sv link)) of
              Inl e \<Rightarrow>
                (calls @ [OpenEditor (open_editorInput m (open_matchLink sv link)),
                          QuickAccessShow (open_text sv (link_text link))], Inr ())
            | Inr u \<Rightarrow> (calls @ [OpenEditor (open_editorInput m (open_matchLink sv link))], Inr ()))"
  using assms by (simp add: TerminalSearchLinkOpener_open_def Let_def split: sum.splits)

lemma open_exact_match_log:
  assumes "getExactMatch sv (open_sanitizedLink sv link) (open_matchLink sv link)
             = (calls, Inr (Some m))"
  shows "take (Suc (length calls)) (fst (TerminalSearchLinkOpener_open sv link))
           = calls @ [OpenEditor (open_editorInput m (open_matchLink sv link))]"
  using open_exact_match [OF assms] by (simp split: sum.splits)

lemma open_exact_match_set:
  assumes "getExactMatch sv (open_sanitizedLink sv link) (open_matchLink sv link)
             = (calls, Inr (Some m))"
  shows "set (fst (TerminalSearchLinkOpener_open sv link))
           \<subseteq> set calls \<union> {OpenEditor (open_editorInput m (open_matchLink sv link)),
                            QuickAccessShow (open_text sv (link_text link))}"
  using open_exact_match [OF assms] by (auto split: sum.splits)

lemma open_returns:
  "snd (TerminalSearchLinkOpener_open sv link) = Inr ()"
  by (simp add: TerminalSearchLinkOpener_open_def Let_def split: prod.splits sum.splits option.splits)

subsection \<open>Evaluation on the POSIX host\<close>

lemma stripLeadingDots_Nil: "stripLeadingDots [] = []"
  by (subst stripLeadingDots.simps) simp

lemma stripLeadingDots_no_dot: "c \<noteq> CHR ''.'' \<Longrightarrow> stripLeadingDots (c # cs) = c # cs"
  by (subst stripLeadingDots.simps) simp

lemmas posix_eval =
  open_text_def posixServices_def folderNamed_def stripFileScheme_def posix_normalize_def
  posix_normalizeSegment_def stripLeadingDots_no_dot stripRubyIn_def stripFolderName_def
  pathSeparatorOf_def

subsection \<open>The workspace folders are all scanned\<close>

text \<open>
  C1 (the code does otherwise): the claim is that the scan of the workspace folders
  stops at the first folder whose name and separator are stripped, so that at most one
  folder name is removed. The \<^verbatim>\<open>return\<close> of the callback does not end the \<^verbatim>\<open>forEach\<close>:
  with the folders \<open>a\<close> and \<open>b\<close>, in this order, the text \<open>a/b/c\<close> loses \<open>a/\<close> and then
  \<open>b/\<close>.
\<close>

theorem C1_two_folder_names_removed:
  "open_text (posixServices [folderNamed ''a'', folderNamed ''b'']) ''a/b/c'' = ''c''"
  by (simp add: posix_eval)

subsection \<open>An absolute path that is a file\<close>

text \<open>
  C7: when the sanitized path is absolute, \<^verbatim>\<open>URI.from\<close> returns a resource for it (with
  the scheme \<^verbatim>\<open>vscode-remote\<close> when a remote authority is set, \<^verbatim>\<open>file\<close> otherwise) and
  \<^verbatim>\<open>resolve\<close> reports a file for that resource, \<^verbatim>\<open>_getExactMatch\<close> returns that resource
  and its only call is the \<^verbatim>\<open>resolve\<close>: the file search is not called. In \<^verbatim>\<open>open\<close> the
  editor is then opened on that resource, and the search is not called either.
\<close>

theorem C7_absolute_file_is_exact_match:
  assumes "path_isAbsolute sv s"
    and "URI_from sv (if remoteAuthority sv \<noteq> None \<and> remoteAuthority sv \<noteq> Some []
                       then Schemas_vscodeRemote else Schemas_file) s = Inr r"
    and "fileService_resolve sv r = Inr st"
    and "isFile st"
  shows "getExactMatch sv s l = ([Resolve r], Inr (Some r))
         \<and> (\<forall>q. FileSearch q \<notin> set (fst (getExactMatch sv s l)))
         \<and> (\<forall>link. open_sanitizedLink sv link = s \<longrightarrow>
               take 2 (fst (TerminalSearchLinkOpener_open sv link))
                 = [Resolve r, OpenEditor (open_editorInput r (open_matchLink sv link))]
               \<and> (\<forall>q. FileSearch q \<notin> set (fst (TerminalSearchLinkOpener_open sv link))))"
proof -
  from assms(2) have u: "URI_from sv (schemeOf sv) s = Inr r"
    by (simp add: schemeOf_def)
  have g: "getExactMatch sv s l = ([Resolve r], Inr (Some r))" for l
    by (rule getExactMatch_stat_file [OF assms(1) u assms(3,4)])
  have "take 2 (fst (TerminalSearchLinkOpener_open sv link))
          = [Resolve r, OpenEditor (open_editorInput r (open_matchLink sv link))]
        \<and> (\<forall>q. FileSearch q \<notin> set (fst (TerminalSearchLinkOpener_open sv link)))"
    if "open_sanitizedLink sv link = s" for link
  proof -
    from g that
    have e: "getExactMatch sv (open_sanitizedLink sv link) (open_matchLink sv link)
               = ([Resolve r], Inr (Some r))"
      by simp
    from open_exact_match_log [OF e] open_exact_match_set [OF e] show ?thesis
      by (auto simp: numeral_2_eq_2)
  qed
  with g show ?thesis by simp
qed

theorem C7_absolute_file_witness:
  "getExactMatch
     ((posixServices [])\<lparr>remoteAuthority := Some ''ssh-remote+box'',
                          fileService_resolve := (\<lambda>r. Inr \<lparr>isFile = True\<rparr>)\<rparr>)
     ''/home/u/a.ts'' ''/home/u/a.ts:3''
   = ([Resolve \<lparr>scheme = Schemas_vscodeRemote, path = ''/home/u/a.ts''\<rparr>],
      Inr (Some \<lparr>scheme = Schemas_vscodeRemote, path = ''/home/u/a.ts''\<rparr>))"
proof -
  let ?sv = "(posixServices [])\<lparr>remoteAuthority := Some ''ssh-remote+box'',
                                 fileService_resolve := (\<lambda>r. Inr \<lparr>isFile = True\<rparr>)\<rparr>"
  let ?r = "\<lparr>scheme = Schemas_vscodeRemote, path = ''/home/u/a.ts''\<rparr>"
  have a: "path_isAbsolute ?sv ''/home/u/a.ts''"
    by (simp add: posixServices_def posix_isAbsolute_def)
  have b: "URI_from ?sv (if remoteAuthority ?sv \<noteq> None \<and> remoteAuthority ?sv \<noteq> Some []
                         then Schemas_vscodeRemote else Schemas_file) ''/home/u/a.ts'' = Inr ?r"
    by (simp add: posixServices_def uri_from_def)
  have c: "fileService_resolve ?sv ?r = Inr \<lparr>isFile = True\<rparr>"
    by (simp add: posixServices_def)
  have d: "isFile \<lparr>isFile = True\<rparr>" by simp
  from C7_absolute_file_is_exact_match [OF a b c d, of "''/home/u/a.ts:3''"]
  show ?thesis by simp
qed

subsection \<open>The bounded search\<close>

text \<open>
  C3 (as the code has it): the claim counts a failing \<^verbatim>\<open>resolve\<close> among the cases in
  which the search is issued. The code leaves \<^verbatim>\<open>_getExactMatch\<close> with the error of
  \<^verbatim>\<open>resolve\<close>; no search is issued. On the POSIX host with no file, for \<open>/a\<close>:
\<close>

theorem C3_failed_stat_issues_no_search:
  "path_isAbsolute (posixServices []) ''/a''
   \<and> URI_from (posixServices []) (schemeOf (posixServices [])) ''/a''
       = Inr \<lparr>scheme = Schemas_file, path = ''/a''\<rparr>
   \<and> fileService_resolve (posixServices []) \<lparr>scheme = Schemas_file, path = ''/a''\<rparr>
       = Inl (Error ''ENOENT'')
   \<and> getExactMatch (posixServices []) ''/a'' ''/a''
       = ([Resolve \<lparr>scheme = Schemas_file, path = ''/a''\<rparr>], Inl (Error ''ENOENT''))"
  by (simp add: getExactMatch_def posixServices_def posix_isAbsolute_def schemeOf_def
      uri_from_def)

text \<open>
  C3, amended: in \<^verbatim>\<open>open\<close>, with \<open>s\<close> the sanitized path, \<open>m\<close> the match link, \<open>t\<close> the
  stripped text and \<open>q\<close> the query over the workspace folders with the pattern \<open>s\<close> and
  \<^verbatim>\<open>maxResults\<close> 2. When \<open>s\<close> is not absolute (no call before, \<open>pre\<close> is empty), or \<open>s\<close> is
  absolute and \<^verbatim>\<open>resolve\<close> returns and reports no file (\<open>pre\<close> is that one call), the
  search \<open>q\<close> is the next and last call of \<^verbatim>\<open>_getExactMatch\<close>; exactly one result is the
  exact match, which \<^verbatim>\<open>open\<close> hands to the editor; with no result, or two and more, or
  when the search throws, there is no exact match and \<^verbatim>\<open>open\<close> shows the quick access.
  When \<^verbatim>\<open>resolve\<close> throws, no search is issued, and \<^verbatim>\<open>open\<close> shows the quick access; the
  same when \<^verbatim>\<open>URI.from\<close> throws, with no call at all before.
\<close>

theorem C3_search_when_stat_finds_no_file:
  assumes "s = open_sanitizedLink sv link"
    and "m = open_matchLink sv link"
    and "t = open_text sv (link_text link)"
    and "q = \<lparr>folderQueries = workspace_folders sv, filePattern = s, maxResults = 2\<rparr>"
  shows
    "(\<forall>pre.
        (\<not> path_isAbsolute sv s \<and> pre = [])
        \<or> (path_isAbsolute sv s
            \<and> (\<exists>r st. URI_from sv (schemeOf sv) s = Inr r \<and> fileService_resolve sv r = Inr st
                       \<and> \<not> isFile st \<and> pre = [Resolve r]))
        \<longrightarrow>
          fst (getExactMatch sv s m) = pre @ [FileSearch q]
          \<and> (\<forall>x. searchService_fileSearch sv q = Inr [x] \<longrightarrow>
                 snd (getExactMatch sv s m) = Inr (Some x)
                 \<and> take (length pre + 2) (fst (TerminalSearchLinkOpener_open sv link))
                     = pre @ [FileSearch q, OpenEditor (open_editorInput x m)])
          \<and> (\<forall>xs. searchService_fileSearch sv q = Inr xs \<and> length xs \<noteq> 1 \<longrightarrow>
                 snd (getExactMatch sv s m) = Inr None
                 \<and> TerminalSearchLinkOpener_open sv link
                     = (pre @ [FileSearch q, QuickAccessShow t], Inr ()))
          \<and> (\<forall>e. searchService_fileSearch sv q = Inl e \<longrightarrow>
                 snd (getExactMatch sv s m) = Inl e
                 \<and> TerminalSearchLinkOpener_open sv link
                     = (pre @ [FileSearch q, QuickAccessShow t], Inr ())))
     \<and> (\<forall>r e. path_isAbsolute sv s \<and> URI_from sv (schemeOf sv) s = Inr r
               \<and> fileService_resolve sv r = Inl e \<longrightarrow>
            getExactMatch sv s m = ([Resolve r], Inl e)
            \<and> TerminalSearchLinkOpener_open sv link = ([Resolve r, QuickAccessShow t], Inr ()))
     \<and> (\<forall>e. path_isAbsolute sv s \<and> URI_from sv (schemeOf sv) s = Inl e \<longrightarrow>
            getExactMatch sv s m = ([], Inl e)
            \<and> TerminalSearchLinkOpener_open sv link = ([QuickAccessShow t], Inr ()))"
proof (intro conjI allI impI)
  have q: "fileQueryOf sv s = q"
    by (simp add: fileQueryOf_def assms(4))
  {
    fix pre
    assume h: "(\<not> path_isAbsolute sv s \<and> pre = [])
        \<or> (path_isAbsolute sv s
            \<and> (\<exists>r st. URI_from sv (schemeOf sv) s = Inr r \<and> fileService_resolve sv r = Inr st
                       \<and> \<not> isFile st \<and> pre = [Resolve r]))"
    note g = getExactMatch_search [OF h, of m, unfolded q]
    from g show "fst (getExactMatch sv s m) = pre @ [FileSearch q]" by simp
    {
      fix x
      assume x: "searchService_fileSearch sv q = Inr [x]"
      with g have e: "getExactMatch sv s m = (pre @ [FileSearch q], Inr (Some x))" by simp
      then show "snd (getExactMatch sv s m) = Inr (Some x)" by simp
      from open_exact_match_log [of sv link "pre @ [FileSearch q]" x] e
      show "take (length pre + 2) (fst (TerminalSearchLinkOpener_open sv link))
              = pre @ [FileSearch q, OpenEditor (open_editorInput x m)]"
        by (simp add: assms(1,2))
    }
    {
      fix xs
      assume xs: "searchService_fileSearch sv q = Inr xs \<and> length xs \<noteq> 1"
      with g have e: "getExactMatch sv s m = (pre @ [FileSearch q], Inr None)" by simp
      then show "snd (getExactMatch sv s m) = Inr None" by simp
      from open_no_exact_match [of sv link "pre @ [FileSearch q]" "Inr None"] e
      show "TerminalSearchLinkOpener_open sv link
              = (pre @ [FileSearch q, QuickAccessShow t], Inr ())"
        by (simp add: assms(1,2,3))
    }
    {
      fix e
      assume "searchService_fileSearch sv q = Inl e"
      with g have e: "getExactMatch sv s m = (pre @ [FileSearch q], Inl e)" by simp
      then show "snd (getExactMatch sv s m) = Inl e" by simp
      from open_no_exact_match [of sv link "pre @ [FileSearch q]" "Inl e"] e
      show "TerminalSearchLinkOpener_open sv link
              = (pre @ [FileSearch q, QuickAccessShow t], Inr ())"
        by (simp add: assms(1,2,3))
    }
  }
  {
    fix r e
    assume "path_isAbsolute sv s \<and> URI_from sv (schemeOf sv) s = Inr r
               \<and> fileService_resolve sv r = Inl e"
    then have e: "getExactMatch sv s m = ([Resolve r], Inl e)"
      by (simp add: getExactMatch_stat_throws)
    then show "getExactMatch sv s m = ([Resolve r], Inl e)" .
    from open_no_exact_match [of sv link "[Resolve r]" "Inl e"] e
    show "TerminalSearchLinkOpener_open sv link = ([Resolve r, QuickAccessShow t], Inr ())"
      by (simp add: assms(1,2,3))
  }
  {
    fix e
    assume "path_isAbsolute sv s \<and> URI_from sv (schemeOf sv) s = Inl e"
    then have e: "getExactMatch sv s m = ([], Inl e)"
      by (simp add: getExactMatch_uri_throws)
    then show "getExactMatch sv s m = ([], Inl e)" .
    from open_no_exact_match [of sv link "[]" "Inl e"] e
    show "TerminalSearchLinkOpener_open sv link = ([QuickAccessShow t], Inr ())"
      by (simp add: assms(1,2,3))
  }
qed

lemma isDigit_eval: "isDigit (CHR ''1'')" "isDigit (CHR ''2'')" "isDigit (CHR ''7'')"
  "\<not> isDigit (CHR ''s'')" "\<not> isDigit (CHR ''.'')" "\<not> isDigit (CHR ''b'')"
  "\<not> isDigit (CHR ''t'')" "\<not> isDigit (CHR ''a'')" "\<not> isDigit (CHR ''/'')"
  by (simp_all add: isDigit_def)

lemma posix_open_text_abs: "open_text (posixServices []) ''/a.ts:7'' = ''/a.ts:7''"
  by (simp add: posix_eval)

lemma posix_open_text_rel: "open_text (posixServices []) ''b.ts'' = ''b.ts''"
  by (simp add: posix_eval)

lemma posix_open_abs:
  "open_matchLink (posixServices []) \<lparr>link_text = ''/a.ts:7'', bufferRange_start_y = 0\<rparr>
     = ''/a.ts:7''"
  "open_sanitizedLink (posixServices []) \<lparr>link_text = ''/a.ts:7'', bufferRange_start_y = 0\<rparr>
     = ''/a.ts''"
proof -
  show m: "open_matchLink (posixServices []) \<lparr>link_text = ''/a.ts:7'', bufferRange_start_y = 0\<rparr>
     = ''/a.ts:7''"
    by (simp add: open_matchLink_def posix_open_text_abs) (simp add: posixServices_def)
  show "open_sanitizedLink (posixServices []) \<lparr>link_text = ''/a.ts:7'', bufferRange_start_y = 0\<rparr>
     = ''/a.ts''"
    by (simp add: open_sanitizedLink_def m isLineColSuffix_def isDigit_eval)
qed

text \<open>The shell is at the root: the cwd of every line is \<open>/\<close>.\<close>

lemma root_open_text:
  "open_text ((posixServices [])\<lparr>commandDetection := Some (\<lambda>y. Some ''/'')\<rparr>) ''b.ts'' = ''b.ts''"
  by (simp add: posix_eval)

lemma root_open:
  "open_matchLink ((posixServices [])\<lparr>commandDetection := Some (\<lambda>y. Some ''/'')\<rparr>)
     \<lparr>link_text = ''b.ts'', bufferRange_start_y = 0\<rparr> = ''//b.ts''"
  "open_sanitizedLink ((posixServices [])\<lparr>commandDetection := Some (\<lambda>y. Some ''/'')\<rparr>)
     \<lparr>link_text = ''b.ts'', bufferRange_start_y = 0\<rparr> = ''//b.ts''"
proof -
  let ?sv = "(posixServices [])\<lparr>commandDetection := Some (\<lambda>y. Some ''/'')\<rparr>"
  let ?l = "\<lparr>link_text = ''b.ts'', bufferRange_start_y = 0\<rparr>"
  have u: "updateLinkWithRelativeCwd ?sv 0 ''b.ts'' (CHR ''/'') = Some ''//b.ts''"
    by (simp add: updateLinkWithRelativeCwd_def posixServices_def)
  show m: "open_matchLink ?sv ?l = ''//b.ts''"
    by (simp add: open_matchLink_def root_open_text)
       (simp add: pathSeparatorOf_def u, simp add: posixServices_def)
  show "open_sanitizedLink ?sv ?l = ''//b.ts''"
    by (simp add: open_sanitizedLink_def m isLineColSuffix_def)
qed

lemma oneFile_open_text: "open_text (oneFileServices opened) ''b.ts:12'' = ''b.ts:12''"
  by (simp add: oneFileServices_def posix_eval)

lemma oneFile_open_text': "open_text (oneFileServices opened) ''b.ts'' = ''b.ts''"
  by (simp add: oneFileServices_def posix_eval)

lemma oneFile_matchLink:
  "open_matchLink (oneFileServices opened) \<lparr>link_text = ''b.ts:12'', bufferRange_start_y = 0\<rparr>
     = ''b.ts:12''"
  by (simp add: open_matchLink_def oneFile_open_text)
     (simp add: oneFileServices_def posixServices_def)

lemma oneFile_matchLink':
  "open_matchLink (oneFileServices opened) \<lparr>link_text = ''b.ts'', bufferRange_start_y = 0\<rparr>
     = ''b.ts''"
  by (simp add: open_matchLink_def oneFile_open_text')
     (simp add: oneFileServices_def posixServices_def)

lemma oneFile_sanitizedLink:
  "open_sanitizedLink (oneFileServices opened) \<lparr>link_text = ''b.ts:12'', bufferRange_start_y = 0\<rparr>
     = ''b.ts''"
  by (simp add: open_sanitizedLink_def oneFile_matchLink isLineColSuffix_def isDigit_eval)

lemma oneFile_sanitizedLink':
  "open_sanitizedLink (oneFileServices opened) \<lparr>link_text = ''b.ts'', bufferRange_start_y = 0\<rparr>
     = ''b.ts''"
  by (simp add: open_sanitizedLink_def oneFile_matchLink' isLineColSuffix_def)

lemma oneFile_getExactMatch:
  "getExactMatch (oneFileServices opened) ''b.ts'' l
     = ([FileSearch \<lparr>folderQueries = [folderNamed ''proj''], filePattern = ''b.ts'',
                      maxResults = 2\<rparr>],
        Inr (Some \<lparr>scheme = Schemas_file, path = ''/home/u/proj/b.ts''\<rparr>))"
  by (simp add: getExactMatch_def fileQueryOf_def oneFileServices_def posixServices_def
      posix_isAbsolute_def)

lemma parseInt_12: "parseInt ''12'' 0 = Num 12"
  by (simp add: parseInt_def isWhiteSpace_def isRadixDigit_def digitValue_def mathInt_def
      roundToDouble_def)

lemma oneFile_editorInput:
  "open_editorInput r ''b.ts:12''
     = \<lparr>resource = r, pinned = True, revealIfOpened = True,
        selection = Some \<lparr>startLineNumber = Num 12, startColumn = Num 0\<rparr>\<rparr>"
  "open_editorInput r ''b.ts''
     = \<lparr>resource = r, pinned = True, revealIfOpened = True, selection = None\<rparr>"
  by (simp_all add: open_editorInput_def lineColGroupsAt_def whenTruthy_def isDigit_eval
      parseInt_12)

theorem C3_search_witness:
  "take 2 (fst (TerminalSearchLinkOpener_open (oneFileServices (Inr ()))
                  \<lparr>link_text = ''b.ts:12'', bufferRange_start_y = 0\<rparr>))
     = [FileSearch \<lparr>folderQueries = [folderNamed ''proj''], filePattern = ''b.ts'',
                     maxResults = 2\<rparr>,
        OpenEditor \<lparr>resource = \<lparr>scheme = Schemas_file, path = ''/home/u/proj/b.ts''\<rparr>,
                    pinned = True, revealIfOpened = True,
                    selection = Some \<lparr>startLineNumber = Num 12, startColumn = Num 0\<rparr>\<rparr>]
   \<and> TerminalSearchLinkOpener_open (posixServices [])
        \<lparr>link_text = ''/a.ts:7'', bufferRange_start_y = 0\<rparr>
      = ([Resolve \<lparr>scheme = Schemas_file, path = ''/a.ts''\<rparr>, QuickAccessShow ''/a.ts:7''],
         Inr ())
   \<and> TerminalSearchLinkOpener_open
        ((posixServices [])\<lparr>commandDetection := Some (\<lambda>y. Some ''/'')\<rparr>)
        \<lparr>link_text = ''b.ts'', bufferRange_start_y = 0\<rparr>
      = ([QuickAccessShow ''b.ts''], Inr ())"
proof -
  let ?one = "oneFileServices (Inr ())"
  let ?l12 = "\<lparr>link_text = ''b.ts:12'', bufferRange_start_y = 0\<rparr>"
  let ?f = "\<lparr>scheme = Schemas_file, path = ''/home/u/proj/b.ts''\<rparr>"
  let ?sv = "posixServices []"
  let ?la = "\<lparr>link_text = ''/a.ts:7'', bufferRange_start_y = 0\<rparr>"
  let ?root = "(posixServices [])\<lparr>commandDetection := Some (\<lambda>y. Some ''/'')\<rparr>"
  let ?lb = "\<lparr>link_text = ''b.ts'', bufferRange_start_y = 0\<rparr>"
  have wf: "workspace_folders ?one = [folderNamed ''proj'']"
    by (simp add: oneFileServices_def posixServices_def)
  note one = C3_search_when_stat_finds_no_file [OF refl refl refl refl, of ?one ?l12,
      THEN conjunct1, rule_format, of "[]", THEN conjunct2, THEN conjunct1, rule_format,
      of ?f, THEN conjunct2]
  have "\<not> path_isAbsolute ?one (open_sanitizedLink ?one ?l12) \<and> [] = ([] :: ServiceCall list)"
    by (simp add: oneFile_sanitizedLink) (simp add: oneFileServices_def posixServices_def
        posix_isAbsolute_def)
  moreover have "searchService_fileSearch ?one
      \<lparr>folderQueries = workspace_folders ?one, filePattern = open_sanitizedLink ?one ?l12,
       maxResults = 2\<rparr> = Inr [?f]"
    by (simp add: oneFileServices_def)
  ultimately have "take (length ([] :: ServiceCall list) + 2)
        (fst (TerminalSearchLinkOpener_open ?one ?l12))
      = [] @ [FileSearch \<lparr>folderQueries = workspace_folders ?one,
                           filePattern = open_sanitizedLink ?one ?l12, maxResults = 2\<rparr>,
              OpenEditor (open_editorInput ?f (open_matchLink ?one ?l12))]"
    by (intro one) simp_all
  then have 1: "take 2 (fst (TerminalSearchLinkOpener_open ?one ?l12))
     = [FileSearch \<lparr>folderQueries = [folderNamed ''proj''], filePattern = ''b.ts'',
                     maxResults = 2\<rparr>,
        OpenEditor \<lparr>resource = ?f, pinned = True, revealIfOpened = True,
                    selection = Some \<lparr>startLineNumber = Num 12, startColumn = Num 0\<rparr>\<rparr>]"
    by (simp add: oneFile_sanitizedLink oneFile_matchLink oneFile_editorInput wf
        numeral_2_eq_2)
  note stat = C3_search_when_stat_finds_no_file [OF refl refl refl refl, of ?sv ?la,
      THEN conjunct2, THEN conjunct1, rule_format,
      of "\<lparr>scheme = Schemas_file, path = ''/a.ts''\<rparr>" "Error ''ENOENT''", THEN conjunct2]
  have "path_isAbsolute ?sv (open_sanitizedLink ?sv ?la)
      \<and> URI_from ?sv (schemeOf ?sv) (open_sanitizedLink ?sv ?la)
          = Inr \<lparr>scheme = Schemas_file, path = ''/a.ts''\<rparr>
      \<and> fileService_resolve ?sv \<lparr>scheme = Schemas_file, path = ''/a.ts''\<rparr> = Inl (Error ''ENOENT'')"
    by (simp add: posix_open_abs) (simp add: posixServices_def posix_isAbsolute_def
        schemeOf_def uri_from_def)
  from stat [OF this]
  have 2: "TerminalSearchLinkOpener_open ?sv ?la
      = ([Resolve \<lparr>scheme = Schemas_file, path = ''/a.ts''\<rparr>, QuickAccessShow ''/a.ts:7''],
         Inr ())"
    by (simp add: posix_open_text_abs)
  note uri = C3_search_when_stat_finds_no_file [OF refl refl refl refl, of ?root ?lb,
      THEN conjunct2, THEN conjunct2, rule_format,
      of "Error ''[UriError]: the path cannot begin with two slash characters''",
      THEN conjunct2]
  have "path_isAbsolute ?root (open_sanitizedLink ?root ?lb)
      \<and> URI_from ?root (schemeOf ?root) (open_sanitizedLink ?root ?lb)
          = Inl (Error ''[UriError]: the path cannot begin with two slash characters'')"
    by (simp add: root_open) (simp add: posixServices_def posix_isAbsolute_def
        schemeOf_def uri_from_def)
  from uri [OF this]
  have 3: "TerminalSearchLinkOpener_open ?root ?lb = ([QuickAccessShow ''b.ts''], Inr ())"
    by (simp add: root_open_text)
  from 1 2 3 show ?thesis by simp
qed

subsection \<open>Errors of the services\<close>

text \<open>
  C4: in \<^verbatim>\<open>open\<close>, with \<open>s\<close> the sanitized path, \<open>t\<close> the stripped text and \<open>q\<close> the query
  for \<open>s\<close>. When \<^verbatim>\<open>resolve\<close> throws (it is called when \<open>s\<close> is absolute, on the resource
  \<^verbatim>\<open>URI.from\<close> returned), or when the search throws (it is called when \<open>s\<close> is not
  absolute, or after \<^verbatim>\<open>resolve\<close> reported no file), \<^verbatim>\<open>open\<close> catches the error, shows the
  quick access and returns; the editor is not opened. The same holds when \<^verbatim>\<open>URI.from\<close>
  throws, before any service is called. In no case does \<^verbatim>\<open>open\<close> throw.
\<close>

theorem C4_service_errors_fall_back:
  assumes "s = open_sanitizedLink sv link"
    and "t = open_text sv (link_text link)"
    and "q = \<lparr>folderQueries = workspace_folders sv, filePattern = s, maxResults = 2\<rparr>"
  shows
    "(\<forall>r e. path_isAbsolute sv s \<and> URI_from sv (schemeOf sv) s = Inr r
             \<and> fileService_resolve sv r = Inl e \<longrightarrow>
          TerminalSearchLinkOpener_open sv link = ([Resolve r, QuickAccessShow t], Inr ()))
     \<and> (\<forall>e. \<not> path_isAbsolute sv s \<and> searchService_fileSearch sv q = Inl e \<longrightarrow>
          TerminalSearchLinkOpener_open sv link = ([FileSearch q, QuickAccessShow t], Inr ()))
     \<and> (\<forall>r st e. path_isAbsolute sv s \<and> URI_from sv (schemeOf sv) s = Inr r
             \<and> fileService_resolve sv r = Inr st \<and> \<not> isFile st
             \<and> searchService_fileSearch sv q = Inl e \<longrightarrow>
          TerminalSearchLinkOpener_open sv link
            = ([Resolve r, FileSearch q, QuickAccessShow t], Inr ()))
     \<and> (\<forall>e. path_isAbsolute sv s \<and> URI_from sv (schemeOf sv) s = Inl e \<longrightarrow>
          TerminalSearchLinkOpener_open sv link = ([QuickAccessShow t], Inr ()))
     \<and> snd (TerminalSearchLinkOpener_open sv link) = Inr ()"
proof (intro conjI allI impI)
  let ?m = "open_matchLink sv link"
  have q: "fileQueryOf sv s = q"
    by (simp add: fileQueryOf_def assms(3))
  {
    fix r e
    assume "path_isAbsolute sv s \<and> URI_from sv (schemeOf sv) s = Inr r
             \<and> fileService_resolve sv r = Inl e"
    then have "getExactMatch sv s ?m = ([Resolve r], Inl e)"
      by (simp add: getExactMatch_stat_throws)
    with open_no_exact_match [of sv link "[Resolve r]" "Inl e"]
    show "TerminalSearchLinkOpener_open sv link = ([Resolve r, QuickAccessShow t], Inr ())"
      by (simp add: assms(1,2))
  }
  {
    fix e
    assume h: "\<not> path_isAbsolute sv s \<and> searchService_fileSearch sv q = Inl e"
    then have "getExactMatch sv s ?m = ([FileSearch q], Inl e)"
      by (simp add: getExactMatch_relative q)
    with open_no_exact_match [of sv link "[FileSearch q]" "Inl e"]
    show "TerminalSearchLinkOpener_open sv link = ([FileSearch q, QuickAccessShow t], Inr ())"
      by (simp add: assms(1,2))
  }
  {
    fix r st e
    assume h: "path_isAbsolute sv s \<and> URI_from sv (schemeOf sv) s = Inr r
             \<and> fileService_resolve sv r = Inr st \<and> \<not> isFile st
             \<and> searchService_fileSearch sv q = Inl e"
    then have "getExactMatch sv s ?m = ([Resolve r, FileSearch q], Inl e)"
      using getExactMatch_stat_no_file [of sv s r st ?m] by (simp add: q)
    with open_no_exact_match [of sv link "[Resolve r, FileSearch q]" "Inl e"]
    show "TerminalSearchLinkOpener_open sv link
            = ([Resolve r, FileSearch q, QuickAccessShow t], Inr ())"
      by (simp add: assms(1,2))
  }
  {
    fix e
    assume "path_isAbsolute sv s \<and> URI_from sv (schemeOf sv) s = Inl e"
    then have "getExactMatch sv s ?m = ([], Inl e)"
      by (simp add: getExactMatch_uri_throws)
    with open_no_exact_match [of sv link "[]" "Inl e"]
    show "TerminalSearchLinkOpener_open sv link = ([QuickAccessShow t], Inr ())"
      by (simp add: assms(1,2))
  }
  show "snd (TerminalSearchLinkOpener_open sv link) = Inr ()"
    by (rule open_returns)
qed

theorem C4_service_errors_witness:
  "TerminalSearchLinkOpener_open (posixServices [])
     \<lparr>link_text = ''/a.ts:7'', bufferRange_start_y = 0\<rparr>
   = ([Resolve \<lparr>scheme = Schemas_file, path = ''/a.ts''\<rparr>, QuickAccessShow ''/a.ts:7''], Inr ())
   \<and> TerminalSearchLinkOpener_open
       ((posixServices [])\<lparr>searchService_fileSearch := (\<lambda>q. Inl (Error ''search failed''))\<rparr>)
       \<lparr>link_text = ''b.ts'', bufferRange_start_y = 0\<rparr>
     = ([FileSearch \<lparr>folderQueries = [], filePattern = ''b.ts'', maxResults = 2\<rparr>,
         QuickAccessShow ''b.ts''], Inr ())
   \<and> TerminalSearchLinkOpener_open
       ((posixServices [])\<lparr>commandDetection := Some (\<lambda>y. Some ''/'')\<rparr>)
       \<lparr>link_text = ''b.ts'', bufferRange_start_y = 0\<rparr>
     = ([QuickAccessShow ''b.ts''], Inr ())"
proof -
  let ?root = "(posixServices [])\<lparr>commandDetection := Some (\<lambda>y. Some ''/'')\<rparr>"
  let ?sv = "posixServices []"
  let ?l = "\<lparr>link_text = ''/a.ts:7'', bufferRange_start_y = 0\<rparr>"
  let ?sv' = "(posixServices [])\<lparr>searchService_fileSearch := (\<lambda>q. Inl (Error ''search failed''))\<rparr>"
  let ?l' = "\<lparr>link_text = ''b.ts'', bufferRange_start_y = 0\<rparr>"
  have t': "open_text ?sv' ''b.ts'' = ''b.ts''"
    by (simp add: posix_eval)
  have m': "open_matchLink ?sv' ?l' = ''b.ts''"
    by (simp add: open_matchLink_def t') (simp add: posixServices_def)
  have s': "open_sanitizedLink ?sv' ?l' = ''b.ts''"
    by (simp add: open_sanitizedLink_def m' isLineColSuffix_def)
  have wf': "workspace_folders ?sv' = []"
    by (simp add: posixServices_def)
  note stat = C4_service_errors_fall_back [OF refl refl refl, of ?sv ?l, THEN conjunct1,
      rule_format, of "\<lparr>scheme = Schemas_file, path = ''/a.ts''\<rparr>" "Error ''ENOENT''"]
  have "path_isAbsolute ?sv (open_sanitizedLink ?sv ?l)
      \<and> URI_from ?sv (schemeOf ?sv) (open_sanitizedLink ?sv ?l)
          = Inr \<lparr>scheme = Schemas_file, path = ''/a.ts''\<rparr>
      \<and> fileService_resolve ?sv \<lparr>scheme = Schemas_file, path = ''/a.ts''\<rparr> = Inl (Error ''ENOENT'')"
    by (simp add: posix_open_abs) (simp add: posixServices_def posix_isAbsolute_def
        schemeOf_def uri_from_def)
  from stat [OF this]
  have 1: "TerminalSearchLinkOpener_open ?sv ?l =
      ([Resolve \<lparr>scheme = Schemas_file, path = ''/a.ts''\<rparr>, QuickAccessShow ''/a.ts:7''], Inr ())"
    by (simp add: posix_open_text_abs)
  note search = C4_service_errors_fall_back [OF refl refl refl, of ?sv' ?l', THEN conjunct2,
      THEN conjunct1, rule_format, of "Error ''search failed''"]
  have "\<not> path_isAbsolute ?sv' (open_sanitizedLink ?sv' ?l')
      \<and> searchService_fileSearch ?sv'
           \<lparr>folderQueries = workspace_folders ?sv', filePattern = open_sanitizedLink ?sv' ?l',
            maxResults = 2\<rparr> = Inl (Error ''search failed'')"
    by (simp add: s') (simp add: posixServices_def posix_isAbsolute_def)
  from search [OF this]
  have 2: "TerminalSearchLinkOpener_open ?sv' ?l' =
      ([FileSearch \<lparr>folderQueries = [], filePattern = ''b.ts'', maxResults = 2\<rparr>,
         QuickAccessShow ''b.ts''], Inr ())"
    by (simp add: s' t' wf')
  note uri = C4_service_errors_fall_back [OF refl refl refl, of ?root ?l', THEN conjunct2,
      THEN conjunct2, THEN conjunct2, THEN conjunct1, rule_format,
      of "Error ''[UriError]: the path cannot begin with two slash characters''"]
  have "path_isAbsolute ?root (open_sanitizedLink ?root ?l')
      \<and> URI_from ?root (schemeOf ?root) (open_sanitizedLink ?root ?l')
          = Inl (Error ''[UriError]: the path cannot begin with two slash characters'')"
    by (simp add: root_open) (simp add: posixServices_def posix_isAbsolute_def
        schemeOf_def uri_from_def)
  from uri [OF this]
  have 3: "TerminalSearchLinkOpener_open ?root ?l' = ([QuickAccessShow ''b.ts''], Inr ())"
    by (simp add: root_open_text)
  from 1 2 3 show ?thesis by simp
qed

subsection \<open>The text of the quick access\<close>

lemma posix_open_text_ruby:
  "open_text (posixServices [folderNamed ''proj'']) ''./lib/foo.rb:in'' = ''lib/foo.rb''"
  by (simp add: posix_eval)

text \<open>
  C2 (as the code has it): the claim is that the quick access is shown the link text as
  it came in. The code shows \<^verbatim>\<open>text\<close>, the link text after the scheme, the leading dots,
  the \<^verbatim>\<open>:in\<close> and a folder name were stripped. On the POSIX host with no file, for
  \<open>./lib/foo.rb:in\<close>: no exact match is found, and the quick access is shown
  \<open>lib/foo.rb\<close>.
\<close>

theorem C2_quick_access_text_is_stripped:
  "snd (getExactMatch (posixServices [folderNamed ''proj''])
          (open_sanitizedLink (posixServices [folderNamed ''proj''])
             \<lparr>link_text = ''./lib/foo.rb:in'', bufferRange_start_y = 0\<rparr>)
          (open_matchLink (posixServices [folderNamed ''proj''])
             \<lparr>link_text = ''./lib/foo.rb:in'', bufferRange_start_y = 0\<rparr>)) = Inr None
   \<and> TerminalSearchLinkOpener_open (posixServices [folderNamed ''proj''])
        \<lparr>link_text = ''./lib/foo.rb:in'', bufferRange_start_y = 0\<rparr>
      = ([FileSearch \<lparr>folderQueries = [folderNamed ''proj''], filePattern = ''lib/foo.rb'',
                       maxResults = 2\<rparr>,
          QuickAccessShow ''lib/foo.rb''], Inr ())
   \<and> QuickAccessShow ''./lib/foo.rb:in''
        \<notin> set (fst (TerminalSearchLinkOpener_open (posixServices [folderNamed ''proj''])
                        \<lparr>link_text = ''./lib/foo.rb:in'', bufferRange_start_y = 0\<rparr>))"
proof -
  let ?sv = "posixServices [folderNamed ''proj'']"
  let ?l = "\<lparr>link_text = ''./lib/foo.rb:in'', bufferRange_start_y = 0\<rparr>"
  have m: "open_matchLink ?sv ?l = ''lib/foo.rb''"
    by (simp add: open_matchLink_def posix_open_text_ruby) (simp add: posixServices_def)
  have s: "open_sanitizedLink ?sv ?l = ''lib/foo.rb''"
    by (simp add: open_sanitizedLink_def m isLineColSuffix_def isDigit_def)
  have g: "getExactMatch ?sv ''lib/foo.rb'' ''lib/foo.rb''
             = ([FileSearch \<lparr>folderQueries = [folderNamed ''proj''], filePattern = ''lib/foo.rb'',
                              maxResults = 2\<rparr>], Inr None)"
    by (simp add: getExactMatch_def fileQueryOf_def posixServices_def posix_isAbsolute_def)
  have o: "TerminalSearchLinkOpener_open ?sv ?l
      = ([FileSearch \<lparr>folderQueries = [folderNamed ''proj''], filePattern = ''lib/foo.rb'',
                       maxResults = 2\<rparr>,
          QuickAccessShow ''lib/foo.rb''], Inr ())"
    by (simp add: TerminalSearchLinkOpener_open_def m s g posix_open_text_ruby)
  show ?thesis
    by (simp add: m s g o)
qed

text \<open>
  C2, amended: whenever \<^verbatim>\<open>_getExactMatch\<close> yields no exact match (it returns none, or
  throws), \<^verbatim>\<open>open\<close> ends by showing the quick access and returns; the text shown is
  the link text after the scheme \<^verbatim>\<open>file://\<close>, the \<^verbatim>\<open>.\<close> and \<^verbatim>\<open>..\<close> segments and leading
  dots, a trailing \<^verbatim>\<open>:in\<close> and the workspace folder names were stripped, in this order
  (and before the rewrite against the cwd and the removal of the line and column).
\<close>

theorem C2_fallback_shows_stripped_text:
  assumes "\<And>m. snd (getExactMatch sv (open_sanitizedLink sv link) (open_matchLink sv link))
                \<noteq> Inr (Some m)"
  shows "TerminalSearchLinkOpener_open sv link =
           (fst (getExactMatch sv (open_sanitizedLink sv link) (open_matchLink sv link))
              @ [QuickAccessShow
                   (foldl (stripFolderName (pathSeparatorOf sv))
                      (stripRubyIn (stripLeadingDots
                         (path_normalize sv (stripFileScheme (link_text link)))))
                      (workspace_folders sv))],
            Inr ())"
proof -
  obtain calls r
    where g: "getExactMatch sv (open_sanitizedLink sv link) (open_matchLink sv link) = (calls, r)"
    by (cases "getExactMatch sv (open_sanitizedLink sv link) (open_matchLink sv link)")
  with assms have "\<And>m. r \<noteq> Inr (Some m)" by simp
  from open_no_exact_match [OF g this] show ?thesis
    by (simp add: g open_text_def)
qed

theorem C2_fallback_witness:
  "TerminalSearchLinkOpener_open
     ((posixServices [folderNamed ''proj''])\<lparr>searchService_fileSearch :=
        (\<lambda>q. Inr [\<lparr>scheme = Schemas_file, path = ''/home/u/proj/src/a.ts''\<rparr>,
                   \<lparr>scheme = Schemas_file, path = ''/home/u/proj/test/src/a.ts''\<rparr>])\<rparr>)
     \<lparr>link_text = ''file:///proj/src/a.ts'', bufferRange_start_y = 0\<rparr>
   = ([FileSearch \<lparr>folderQueries = [folderNamed ''proj''], filePattern = ''src/a.ts'',
                    maxResults = 2\<rparr>,
       QuickAccessShow ''src/a.ts''], Inr ())"
proof -
  let ?sv = "(posixServices [folderNamed ''proj''])\<lparr>searchService_fileSearch :=
        (\<lambda>q. Inr [\<lparr>scheme = Schemas_file, path = ''/home/u/proj/src/a.ts''\<rparr>,
                   \<lparr>scheme = Schemas_file, path = ''/home/u/proj/test/src/a.ts''\<rparr>])\<rparr>"
  let ?l = "\<lparr>link_text = ''file:///proj/src/a.ts'', bufferRange_start_y = 0\<rparr>"
  have t: "open_text ?sv ''file:///proj/src/a.ts'' = ''src/a.ts''"
    by (simp add: posix_eval)
  have m: "open_matchLink ?sv ?l = ''src/a.ts''"
    by (simp add: open_matchLink_def t) (simp add: posixServices_def)
  have s: "open_sanitizedLink ?sv ?l = ''src/a.ts''"
    by (simp add: open_sanitizedLink_def m isLineColSuffix_def isDigit_def)
  have g: "getExactMatch ?sv ''src/a.ts'' ''src/a.ts''
             = ([FileSearch \<lparr>folderQueries = [folderNamed ''proj''], filePattern = ''src/a.ts'',
                              maxResults = 2\<rparr>], Inr None)"
    by (simp add: getExactMatch_def fileQueryOf_def posixServices_def posix_isAbsolute_def)
  have h: "\<And>x. snd (getExactMatch ?sv (open_sanitizedLink ?sv ?l) (open_matchLink ?sv ?l))
                \<noteq> Inr (Some x)"
    by (simp add: m s g)
  from C2_fallback_shows_stripped_text [of ?sv ?l, OF h] show ?thesis
    by (simp add: m s g) (simp add: posix_eval)
qed

subsection \<open>An error of the editor\<close>

text \<open>
  C10: when an exact match was found and \<^verbatim>\<open>openEditor\<close> throws, \<^verbatim>\<open>open\<close> catches the
  error, shows the quick access with \<^verbatim>\<open>text\<close> (the stripped link text) and returns.
\<close>

theorem C10_editor_error_falls_back:
  assumes "getExactMatch sv (open_sanitizedLink sv link) (open_matchLink sv link)
             = (calls, Inr (Some exactMatch))"
    and "editorService_openEditor sv (open_editorInput exactMatch (open_matchLink sv link))
           = Inl e"
  shows "TerminalSearchLinkOpener_open sv link =
           (calls @ [OpenEditor (open_editorInput exactMatch (open_matchLink sv link)),
                     QuickAccessShow (open_text sv (link_text link))], Inr ())"
  using open_exact_match [OF assms(1)] assms(2) by simp

subsection \<open>The rewrite against the cwd\<close>

text \<open>
  C6: when the terminal has command detection and it knows a cwd for the line (a
  string that is not empty: an empty one is falsy and counts as none), a candidate with
  no path separator is rewritten to the cwd, the separator and the candidate.
\<close>

theorem C6_bare_file_name_joins_cwd:
  assumes "commandDetection sv = Some getCwdForLine"
    and "getCwdForLine y = Some cwd"
    and "cwd \<noteq> []"
    and "pathSeparator \<notin> set candidate"
  shows "updateLinkWithRelativeCwd sv y candidate pathSeparator
           = Some (cwd @ [pathSeparator] @ candidate)"
  using assms by (simp add: updateLinkWithRelativeCwd_def)

theorem C6_bare_file_name_witness:
  "updateLinkWithRelativeCwd
     ((posixServices [])\<lparr>commandDetection := Some (\<lambda>y. Some ''/home/u/proj/src'')\<rparr>)
     3 ''b.ts'' (CHR ''/'')
   = Some ''/home/u/proj/src/b.ts''"
proof -
  let ?sv = "(posixServices [])\<lparr>commandDetection := Some (\<lambda>y. Some ''/home/u/proj/src'')\<rparr>"
  have a: "commandDetection ?sv = Some (\<lambda>y. Some ''/home/u/proj/src'')"
    by (simp add: posixServices_def)
  have b: "(\<lambda>y::int. Some ''/home/u/proj/src'') 3 = Some ''/home/u/proj/src''" by simp
  have c: "''/home/u/proj/src'' \<noteq> []" by simp
  have d: "CHR ''/'' \<notin> set ''b.ts''" by simp
  from C6_bare_file_name_joins_cwd [OF a b c d] show ?thesis by simp
qed

subsection \<open>The selection of the editor\<close>

lemma not_isDigit_colon: "\<not> isDigit (CHR '':'')"
  by (simp add: isDigit_def)

lemma digits_no_colon: "list_all isDigit ds \<Longrightarrow> CHR '':'' \<notin> set ds"
  using not_isDigit_colon by (auto simp: list_all_iff)

lemma last_colon_unique:
  assumes "a @ CHR '':'' # b = c @ CHR '':'' # d"
    and "CHR '':'' \<notin> set b" and "CHR '':'' \<notin> set d"
  shows "a = c \<and> b = d"
proof -
  have "\<And>u v. CHR '':'' \<notin> set v \<Longrightarrow>
          takeWhile (\<lambda>x. x \<noteq> CHR '':'') (rev (u @ CHR '':'' # v)) = rev v"
    by (auto simp: takeWhile_tail)
  from this [OF assms(2), of a] this [OF assms(3), of c] assms(1)
  have "rev b = rev d" by simp
  then have "b = d" by simp
  with assms(1) show ?thesis by simp
qed

lemma lineColGroupsAt_SomeD:
  assumes "lineColGroupsAt s = Some (g1, g3)"
  shows "\<exists>ds. list_all isDigit ds \<and> g1 = (if ds = [] then None else Some ds) \<and>
           ((g3 = None \<and> s = CHR '':'' # ds) \<or>
            (\<exists>c. g3 = Some c \<and> c \<noteq> [] \<and> list_all isDigit c \<and> s = CHR '':'' # ds @ CHR '':'' # c))"
proof (cases s)
  case Nil
  with assms show ?thesis by (simp add: lineColGroupsAt_def)
next
  case (Cons x r)
  define ds where "ds = takeWhile isDigit r"
  define r' where "r' = dropWhile isDigit r"
  have ds: "list_all isDigit ds"
    unfolding ds_def list_all_iff by (auto dest: set_takeWhileD)
  have r: "r = ds @ r'"
    unfolding ds_def r'_def by simp
  from assms Cons have x: "x = CHR '':''"
    by (simp add: lineColGroupsAt_def split: if_splits)
  from assms Cons x
  have body: "(if r' = [] then Some (if ds = [] then None else Some ds, None)
               else if hd r' = CHR '':'' \<and> tl r' \<noteq> [] \<and> list_all isDigit (tl r')
               then Some (if ds = [] then None else Some ds, Some (tl r'))
               else None) = Some (g1, g3)"
    unfolding lineColGroupsAt_def Let_def ds_def r'_def by simp
  show ?thesis
  proof (cases "r' = []")
    case True
    with body have "g1 = (if ds = [] then None else Some ds)" "g3 = None"
      by simp_all
    moreover from True r have "s = CHR '':'' # ds" using Cons x by simp
    ultimately show ?thesis using ds by blast
  next
    case False
    then obtain y t where t: "r' = y # t" by (cases r') auto
    with body have g: "g1 = (if ds = [] then None else Some ds)" "g3 = Some t"
      and c: "y = CHR '':''" "t \<noteq> []" "list_all isDigit t"
      by (simp_all split: if_splits)
    from r t c(1) Cons x have "s = CHR '':'' # ds @ CHR '':'' # t" by simp
    with g c ds show ?thesis by blast
  qed
qed

lemma lineColGroupsAt_line_only:
  assumes "ds \<noteq> []" and "list_all isDigit ds"
  shows "lineColGroupsAt (CHR '':'' # ds) = Some (Some ds, None)"
proof -
  from assms(2) have tw: "takeWhile isDigit ds = ds" and dw: "dropWhile isDigit ds = []"
    by (simp_all add: list_all_iff)
  show ?thesis
    unfolding lineColGroupsAt_def Let_def list.case tw dw using assms(1) by simp
qed


lemma matchLineCol_line_only:
  assumes "ds \<noteq> []" and "list_all isDigit ds"
    and "\<not> (\<exists>q ds'. p = q @ CHR '':'' # ds' \<and> list_all isDigit ds')"
  shows "matchLineCol (p @ CHR '':'' # ds) = Some (Some ds, None)"
  using assms(3)
proof (induction p)
  case Nil
  from lineColGroupsAt_line_only [OF assms(1,2)] show ?case by simp
next
  case (Cons x p)
  have "lineColGroupsAt (x # p @ CHR '':'' # ds) = None"
  proof (rule ccontr)
    assume "lineColGroupsAt (x # p @ CHR '':'' # ds) \<noteq> None"
    then obtain g1 g3 where "lineColGroupsAt (x # p @ CHR '':'' # ds) = Some (g1, g3)"
      by auto
    from lineColGroupsAt_SomeD [OF this] obtain ds0 where ds0: "list_all isDigit ds0"
      and alt: "x # p @ CHR '':'' # ds = CHR '':'' # ds0 \<or>
                (\<exists>c. c \<noteq> [] \<and> list_all isDigit c \<and>
                     x # p @ CHR '':'' # ds = CHR '':'' # ds0 @ CHR '':'' # c)"
      by blast
    from alt show False
    proof
      assume "x # p @ CHR '':'' # ds = CHR '':'' # ds0"
      then have "ds0 = p @ CHR '':'' # ds" by simp
      then have "CHR '':'' \<in> set ds0" by simp
      with digits_no_colon [OF ds0] show False by simp
    next
      assume "\<exists>c. c \<noteq> [] \<and> list_all isDigit c \<and>
                x # p @ CHR '':'' # ds = CHR '':'' # ds0 @ CHR '':'' # c"
      then obtain c where c: "list_all isDigit c"
        and e: "x = CHR '':''" "p @ CHR '':'' # ds = ds0 @ CHR '':'' # c"
        by auto
      from last_colon_unique [OF e(2) digits_no_colon [OF assms(2)] digits_no_colon [OF c]]
      have "p = ds0" by simp
      with e(1) ds0 have "x # p = [] @ CHR '':'' # ds0 \<and> list_all isDigit ds0" by simp
      with Cons.prems show False by blast
    qed
  qed
  moreover have "\<not> (\<exists>q ds'. p = q @ CHR '':'' # ds' \<and> list_all isDigit ds')"
  proof
    assume "\<exists>q ds'. p = q @ CHR '':'' # ds' \<and> list_all isDigit ds'"
    then obtain q ds' where "p = q @ CHR '':'' # ds'" "list_all isDigit ds'" by blast
    then have "x # p = (x # q) @ CHR '':'' # ds' \<and> list_all isDigit ds'" by simp
    with Cons.prems show False by blast
  qed
  ultimately show ?case using Cons.IH by simp
qed

lemma matchLineCol_no_line:
  assumes "\<not> (\<exists>p ds. s = p @ CHR '':'' # ds \<and> ds \<noteq> [] \<and> list_all isDigit ds)"
  shows "matchLineCol s = None \<or> (\<exists>g3. matchLineCol s = Some (None, g3))"
  using assms
proof (induction s)
  case Nil
  show ?case by simp
next
  case (Cons x s)
  show ?case
  proof (cases "lineColGroupsAt (x # s)")
    case None
    have "\<not> (\<exists>p ds. s = p @ CHR '':'' # ds \<and> ds \<noteq> [] \<and> list_all isDigit ds)"
    proof
      assume "\<exists>p ds. s = p @ CHR '':'' # ds \<and> ds \<noteq> [] \<and> list_all isDigit ds"
      then obtain p ds where "s = p @ CHR '':'' # ds" "ds \<noteq> []" "list_all isDigit ds"
        by blast
      then have "x # s = (x # p) @ CHR '':'' # ds \<and> ds \<noteq> [] \<and> list_all isDigit ds"
        by simp
      with Cons.prems show False by blast
    qed
    from Cons.IH [OF this] None show ?thesis by simp
  next
    case (Some g)
    obtain g1 g3 where g: "g = (g1, g3)" by (cases g)
    from lineColGroupsAt_SomeD [OF Some [unfolded g]] obtain ds0
      where ds0: "list_all isDigit ds0" "g1 = (if ds0 = [] then None else Some ds0)"
        and alt: "(g3 = None \<and> x # s = CHR '':'' # ds0) \<or>
                  (\<exists>c. g3 = Some c \<and> c \<noteq> [] \<and> list_all isDigit c \<and>
                       x # s = CHR '':'' # ds0 @ CHR '':'' # c)"
      by blast
    from alt have "ds0 = []"
    proof
      assume a: "g3 = None \<and> x # s = CHR '':'' # ds0"
      show ?thesis
      proof (rule ccontr)
        assume "ds0 \<noteq> []"
        with a ds0(1) have "x # s = [] @ CHR '':'' # ds0 \<and> ds0 \<noteq> [] \<and> list_all isDigit ds0"
          by simp
        with Cons.prems show False by blast
      qed
    next
      assume "\<exists>c. g3 = Some c \<and> c \<noteq> [] \<and> list_all isDigit c \<and>
                x # s = CHR '':'' # ds0 @ CHR '':'' # c"
      then obtain c where "c \<noteq> []" "list_all isDigit c"
        "x # s = (CHR '':'' # ds0) @ CHR '':'' # c" by auto
      with Cons.prems show ?thesis by blast
    qed
    with ds0(2) Some g show ?thesis by simp
  qed
qed

lemma open_editorInput_line_only:
  assumes "matchLineCol m = Some (Some ds, None)" and "ds \<noteq> []"
  shows "open_editorInput r m =
           \<lparr>resource = r, pinned = True, revealIfOpened = True,
            selection = Some \<lparr>startLineNumber = parseInt ds 0, startColumn = Num 0\<rparr>\<rparr>"
  using assms by (simp add: open_editorInput_def whenTruthy_def)

lemma open_editorInput_no_line:
  assumes "matchLineCol m = None \<or> (\<exists>g3. matchLineCol m = Some (None, g3))"
  shows "open_editorInput r m =
           \<lparr>resource = r, pinned = True, revealIfOpened = True, selection = None\<rparr>"
  using assms by (auto simp: open_editorInput_def whenTruthy_def)

text \<open>
  C9: when an exact match was found, the editor is opened right after the calls of
  \<^verbatim>\<open>_getExactMatch\<close>. If \<^verbatim>\<open>matchLink\<close> ends with a colon and digits, and what is before
  does not itself end with a colon and digits (there is a line and no column), the
  selection has that line and the start column 0. If \<^verbatim>\<open>matchLink\<close> does not end with a
  colon and digits, the editor is given no selection.
\<close>

theorem C9_selection_of_exact_match:
  assumes "getExactMatch sv (open_sanitizedLink sv link) (open_matchLink sv link)
             = (calls, Inr (Some exactMatch))"
  shows "(\<forall>p ds. open_matchLink sv link = p @ CHR '':'' # ds \<and> ds \<noteq> [] \<and> list_all isDigit ds
                 \<and> \<not> (\<exists>q ds'. p = q @ CHR '':'' # ds' \<and> list_all isDigit ds')
           \<longrightarrow> take (Suc (length calls)) (fst (TerminalSearchLinkOpener_open sv link))
                 = calls @ [OpenEditor
                     \<lparr>resource = exactMatch, pinned = True, revealIfOpened = True,
                      selection = Some \<lparr>startLineNumber = parseInt ds 0,
                                        startColumn = Num 0\<rparr>\<rparr>])
       \<and> (\<not> (\<exists>p ds. open_matchLink sv link = p @ CHR '':'' # ds \<and> ds \<noteq> []
                     \<and> list_all isDigit ds)
           \<longrightarrow> take (Suc (length calls)) (fst (TerminalSearchLinkOpener_open sv link))
                 = calls @ [OpenEditor
                     \<lparr>resource = exactMatch, pinned = True, revealIfOpened = True,
                      selection = None\<rparr>])"
proof (intro conjI allI impI)
  fix p ds
  assume h: "open_matchLink sv link = p @ CHR '':'' # ds \<and> ds \<noteq> [] \<and> list_all isDigit ds
             \<and> \<not> (\<exists>q ds'. p = q @ CHR '':'' # ds' \<and> list_all isDigit ds')"
  then have "matchLineCol (open_matchLink sv link) = Some (Some ds, None)"
    using matchLineCol_line_only [of ds p] by simp
  moreover from h have "ds \<noteq> []" by simp
  ultimately have "open_editorInput exactMatch (open_matchLink sv link) =
      \<lparr>resource = exactMatch, pinned = True, revealIfOpened = True,
       selection = Some \<lparr>startLineNumber = parseInt ds 0, startColumn = Num 0\<rparr>\<rparr>"
    by (rule open_editorInput_line_only)
  with open_exact_match_log [OF assms]
  show "take (Suc (length calls)) (fst (TerminalSearchLinkOpener_open sv link))
          = calls @ [OpenEditor
              \<lparr>resource = exactMatch, pinned = True, revealIfOpened = True,
               selection = Some \<lparr>startLineNumber = parseInt ds 0, startColumn = Num 0\<rparr>\<rparr>]"
    by simp
next
  assume "\<not> (\<exists>p ds. open_matchLink sv link = p @ CHR '':'' # ds \<and> ds \<noteq> []
                \<and> list_all isDigit ds)"
  from open_editorInput_no_line [OF matchLineCol_no_line [OF this]]
    open_exact_match_log [OF assms]
  show "take (Suc (length calls)) (fst (TerminalSearchLinkOpener_open sv link))
          = calls @ [OpenEditor
              \<lparr>resource = exactMatch, pinned = True, revealIfOpened = True,
               selection = None\<rparr>]"
    by simp
qed

theorem C9_selection_witness:
  "take 2 (fst (TerminalSearchLinkOpener_open (oneFileServices (Inr ()))
                  \<lparr>link_text = ''b.ts:12'', bufferRange_start_y = 0\<rparr>))
     = [FileSearch \<lparr>folderQueries = [folderNamed ''proj''], filePattern = ''b.ts'',
                     maxResults = 2\<rparr>,
        OpenEditor \<lparr>resource = \<lparr>scheme = Schemas_file, path = ''/home/u/proj/b.ts''\<rparr>,
                    pinned = True, revealIfOpened = True,
                    selection = Some \<lparr>startLineNumber = Num 12, startColumn = Num 0\<rparr>\<rparr>]
   \<and> take 2 (fst (TerminalSearchLinkOpener_open (oneFileServices (Inr ()))
                  \<lparr>link_text = ''b.ts'', bufferRange_start_y = 0\<rparr>))
     = [FileSearch \<lparr>folderQueries = [folderNamed ''proj''], filePattern = ''b.ts'',
                     maxResults = 2\<rparr>,
        OpenEditor \<lparr>resource = \<lparr>scheme = Schemas_file, path = ''/home/u/proj/b.ts''\<rparr>,
                    pinned = True, revealIfOpened = True, selection = None\<rparr>]"
proof -
  let ?sv = "oneFileServices (Inr ())"
  let ?l = "\<lparr>link_text = ''b.ts:12'', bufferRange_start_y = 0\<rparr>"
  let ?l' = "\<lparr>link_text = ''b.ts'', bufferRange_start_y = 0\<rparr>"
  let ?q = "FileSearch \<lparr>folderQueries = [folderNamed ''proj''], filePattern = ''b.ts'',
                         maxResults = 2\<rparr>"
  let ?r = "\<lparr>scheme = Schemas_file, path = ''/home/u/proj/b.ts''\<rparr>"
  have s: "open_sanitizedLink ?sv ?l = ''b.ts''"
    by (simp add: open_sanitizedLink_def oneFile_matchLink isLineColSuffix_def isDigit_eval)
  have s': "open_sanitizedLink ?sv ?l' = ''b.ts''"
    by (simp add: open_sanitizedLink_def oneFile_matchLink' isLineColSuffix_def)
  have g: "getExactMatch ?sv (open_sanitizedLink ?sv ?l) (open_matchLink ?sv ?l)
             = ([?q], Inr (Some ?r))"
    by (simp add: s oneFile_getExactMatch)
  have g': "getExactMatch ?sv (open_sanitizedLink ?sv ?l') (open_matchLink ?sv ?l')
             = ([?q], Inr (Some ?r))"
    by (simp add: s' oneFile_getExactMatch)
  have line: "open_matchLink ?sv ?l = ''b.ts'' @ CHR '':'' # ''12'' \<and> ''12'' \<noteq> []
      \<and> list_all isDigit ''12''
      \<and> \<not> (\<exists>q ds'. ''b.ts'' = q @ CHR '':'' # ds' \<and> list_all isDigit ds')"
  proof -
    have "\<And>q ds'. ''b.ts'' = q @ CHR '':'' # ds' \<Longrightarrow> False"
    proof -
      fix q ds' :: string
      assume "''b.ts'' = q @ CHR '':'' # ds'"
      then have "CHR '':'' \<in> set ''b.ts''" by (metis in_set_conv_decomp)
      then show False by simp
    qed
    then show ?thesis by (auto simp: oneFile_matchLink isDigit_eval)
  qed
  have none: "\<not> (\<exists>p ds. open_matchLink ?sv ?l' = p @ CHR '':'' # ds \<and> ds \<noteq> []
                     \<and> list_all isDigit ds)"
  proof
    assume "\<exists>p ds. open_matchLink ?sv ?l' = p @ CHR '':'' # ds \<and> ds \<noteq> []
                     \<and> list_all isDigit ds"
    then obtain p ds where "''b.ts'' = p @ CHR '':'' # ds"
      by (auto simp: oneFile_matchLink')
    then have "CHR '':'' \<in> set ''b.ts''" by (metis in_set_conv_decomp)
    then show False by simp
  qed
  have n12: "parseInt ''12'' 0 = Num 12"
    by (simp add: parseInt_def isWhiteSpace_def isRadixDigit_def digitValue_def mathInt_def
        roundToDouble_def)
  from C9_selection_of_exact_match [OF g] line
  have "take (Suc (length [?q])) (fst (TerminalSearchLinkOpener_open ?sv ?l))
          = [?q] @ [OpenEditor \<lparr>resource = ?r, pinned = True, revealIfOpened = True,
                               selection = Some \<lparr>startLineNumber = parseInt ''12'' 0,
                                                 startColumn = Num 0\<rparr>\<rparr>]"
    by blast
  moreover
  from C9_selection_of_exact_match [OF g'] none
  have "take (Suc (length [?q])) (fst (TerminalSearchLinkOpener_open ?sv ?l'))
          = [?q] @ [OpenEditor \<lparr>resource = ?r, pinned = True, revealIfOpened = True,
                               selection = None\<rparr>]"
    by blast
  ultimately show ?thesis by (simp add: n12 numeral_2_eq_2)
qed

theorem C10_editor_error_witness:
  "TerminalSearchLinkOpener_open (oneFileServices (Inl (Error ''cannot open'')))
     \<lparr>link_text = ''b.ts'', bufferRange_start_y = 0\<rparr>
   = ([FileSearch \<lparr>folderQueries = [folderNamed ''proj''], filePattern = ''b.ts'',
                    maxResults = 2\<rparr>,
       OpenEditor \<lparr>resource = \<lparr>scheme = Schemas_file, path = ''/home/u/proj/b.ts''\<rparr>,
                   pinned = True, revealIfOpened = True, selection = None\<rparr>,
       QuickAccessShow ''b.ts''], Inr ())"
proof -
  let ?sv = "oneFileServices (Inl (Error ''cannot open''))"
  let ?l = "\<lparr>link_text = ''b.ts'', bufferRange_start_y = 0\<rparr>"
  let ?q = "FileSearch \<lparr>folderQueries = [folderNamed ''proj''], filePattern = ''b.ts'',
                         maxResults = 2\<rparr>"
  let ?r = "\<lparr>scheme = Schemas_file, path = ''/home/u/proj/b.ts''\<rparr>"
  have s: "open_sanitizedLink ?sv ?l = ''b.ts''"
    by (simp add: open_sanitizedLink_def oneFile_matchLink' isLineColSuffix_def)
  have g: "getExactMatch ?sv (open_sanitizedLink ?sv ?l) (open_matchLink ?sv ?l)
             = ([?q], Inr (Some ?r))"
    by (simp add: s oneFile_getExactMatch)
  have e: "editorService_openEditor ?sv (open_editorInput ?r (open_matchLink ?sv ?l))
             = Inl (Error ''cannot open'')"
    by (simp add: oneFileServices_def)
  have i: "open_editorInput ?r ''b.ts''
             = \<lparr>resource = ?r, pinned = True, revealIfOpened = True, selection = None\<rparr>"
    by (simp add: open_editorInput_def lineColGroupsAt_def whenTruthy_def)
  from C10_editor_error_falls_back [OF g e] show ?thesis
    by (simp add: oneFile_matchLink' oneFile_open_text' i)
qed

subsection \<open>Stripping twice\<close>
























subsection \<open>The matcher\<close>

lemma length_clearGroups [simp]: "length (clearGroups i n caps) = length caps"
  by (induction i n caps rule: clearGroups.induct) simp_all








subsection \<open>Greedy classes\<close>










subsection \<open>The line and column clause on colons and digits\<close>





lemma parenCount_spaceClause [simp]: "parenCount spaceClause = 0"
  by (simp add: spaceClause_def)

lemma parenCount_literal [simp]: "parenCount (literal cs r) = parenCount r"
  by (induction cs) simp_all

lemma parenCount_clauses [simp]:
  "parenCount digits = 1" "parenCount nonSpaces = 1" "parenCount quoteClause = 0"
  "parenCount lineAndColumnClause1 = 6" "parenCount lineAndColumnClause2 = 6"
  "parenCount lineAndColumnClause3 = 6" "parenCount lineAndColumnClause4 = 6"
  "parenCount lineAndColumnClause5 = 6" "parenCount lineAndColumnClause6 = 6"
  by (simp_all add: digits_def nonSpaces_def quoteClause_def lineAndColumnClause1_def
        lineAndColumnClause2_def lineAndColumnClause3_def lineAndColumnClause4_def
        lineAndColumnClause5_def lineAndColumnClause6_def)















subsection \<open>The path clause of POSIX\<close>




lemma parenCount_path [simp]:
  "parenCount excludedPathCharactersClause = 0" "parenCount pathPrefix = 1"
  by (simp_all add: excludedPathCharactersClause_def pathPrefix_def)







subsection \<open>The result of \<^verbatim>\<open>exec\<close> and of the loop\<close>















subsection \<open>Line and column of a local file link\<close>










end
